theory Spec2Isabelle
  imports Main
begin

section \<open>The agent SSH server (agent/agentssh/agentssh.go)\<close>

text \<open>
  A shallow embedding of the session classifier, the file-transfer guard, the session
  dispatcher, the command builder, the banner and MOTD writer, the two session runners
  and the resource tracker with the server life cycle.

  Go strings are byte sequences and are modelled as \<open>string\<close> (a list of bytes);
  where package \<open>strings\<close> reads a string as UTF-8, the model follows the encoding.
\<close>

subsection \<open>Package strings\<close>

definition HasPrefix :: "string \<Rightarrow> string \<Rightarrow> bool" where
  "HasPrefix s p = (take (length p) s = p)"

definition TrimPrefix :: "string \<Rightarrow> string \<Rightarrow> string" where
  "TrimPrefix s p = (if HasPrefix s p then drop (length p) s else s)"

text \<open>
  \<open>strings.ToLower\<close>. A string whose bytes are all below \<open>utf8.RuneSelf\<close> (128) is
  lower-cased byte by byte: \<open>A\<close>..\<open>Z\<close> become \<open>a\<close>..\<open>z\<close>. For any other string
  the result is \<open>strings.Map(unicode.ToLower, s)\<close>, which reads the case tables of
  package \<open>unicode\<close>; that function is the parameter \<open>mapLower\<close>.
\<close>

definition lower_byte :: "char \<Rightarrow> char" where
  "lower_byte c =
     (let n = (of_char c :: nat) in if 65 \<le> n \<and> n \<le> 90 then char_of (n + 32) else c)"

definition isASCII :: "string \<Rightarrow> bool" where
  "isASCII s = list_all (\<lambda>c. (of_char c :: nat) < 128) s"

definition ToLower :: "(string \<Rightarrow> string) \<Rightarrow> string \<Rightarrow> string" where
  "ToLower mapLower s = (if isASCII s then map lower_byte s else mapLower s)"

text \<open>
  \<open>strings.TrimSpace\<close> removes the leading and then the trailing runes for which
  \<open>unicode.IsSpace\<close> holds: U+0009 to U+000D, U+0020, U+0085, U+00A0, U+1680, U+2000 to
  U+200A, U+2028, U+2029, U+202F, U+205F and U+3000. \<open>spaceRunes\<close> lists their UTF-8
  encodings. A rune is decoded as one of them exactly when the bytes are its encoding
  (the decoder accepts the shortest encoding only, and a byte that starts no valid
  encoding is decoded as U+FFFD, which is no space); from the end,
  \<open>utf8.DecodeLastRuneInString\<close> steps back to the last byte that starts a rune, which
  is the first byte of the encoding when the string ends in one.
\<close>

definition spaceRunes :: "string list" where
  "spaceRunes =
     [[CHR 0x09], [CHR 0x0A], [CHR 0x0B], [CHR 0x0C], [CHR 0x0D], [CHR 0x20],
      [CHR 0xC2, CHR 0x85], [CHR 0xC2, CHR 0xA0],
      [CHR 0xE1, CHR 0x9A, CHR 0x80],
      [CHR 0xE2, CHR 0x80, CHR 0x80], [CHR 0xE2, CHR 0x80, CHR 0x81],
      [CHR 0xE2, CHR 0x80, CHR 0x82], [CHR 0xE2, CHR 0x80, CHR 0x83],
      [CHR 0xE2, CHR 0x80, CHR 0x84], [CHR 0xE2, CHR 0x80, CHR 0x85],
      [CHR 0xE2, CHR 0x80, CHR 0x86], [CHR 0xE2, CHR 0x80, CHR 0x87],
      [CHR 0xE2, CHR 0x80, CHR 0x88], [CHR 0xE2, CHR 0x80, CHR 0x89],
      [CHR 0xE2, CHR 0x80, CHR 0x8A],
      [CHR 0xE2, CHR 0x80, CHR 0xA8], [CHR 0xE2, CHR 0x80, CHR 0xA9],
      [CHR 0xE2, CHR 0x80, CHR 0xAF], [CHR 0xE2, CHR 0x81, CHR 0x9F],
      [CHR 0xE3, CHR 0x80, CHR 0x80]]"

text \<open>
  The number of bytes of the rune of \<open>runes\<close> that \<open>s\<close> starts with (0 when it starts
  with none), and the removal of all such leading runes.
\<close>

definition leadingRune :: "string list \<Rightarrow> string \<Rightarrow> nat" where
  "leadingRune runes s = (case find (HasPrefix s) runes of None \<Rightarrow> 0 | Some r \<Rightarrow> length r)"

function trimLeading :: "string list \<Rightarrow> string \<Rightarrow> string" where
  "trimLeading runes s =
     (if leadingRune runes s = 0 then s else trimLeading runes (drop (leadingRune runes s) s))"
  by pat_completeness auto
termination
proof (relation "measure (\<lambda>(runes, s). length s)")
  show "wf (measure (\<lambda>(runes, s). length s))" by simp
next
  fix runes :: "string list" and s :: string
  assume n: "leadingRune runes s \<noteq> 0"
  then obtain r where "find (HasPrefix s) runes = Some r" and r: "length r \<noteq> 0"
    by (auto simp: leadingRune_def split: option.splits)
  then have "HasPrefix s r" by (auto simp: find_Some_iff)
  with r have "s \<noteq> []" by (auto simp: HasPrefix_def)
  with n show "((runes, drop (leadingRune runes s) s), (runes, s)) \<in> measure (\<lambda>(runes, s). length s)"
    by simp
qed

declare trimLeading.simps [simp del]

definition TrimLeftSpace :: "string \<Rightarrow> string" where
  "TrimLeftSpace s = trimLeading spaceRunes s"

definition TrimRightSpace :: "string \<Rightarrow> string" where
  "TrimRightSpace s = rev (trimLeading (map rev spaceRunes) (rev s))"

definition TrimSpace :: "string \<Rightarrow> string" where
  "TrimSpace s = TrimRightSpace (TrimLeftSpace s)"

text \<open>\<open>slices.DeleteFunc\<close>: the elements for which \<open>del\<close> is false, in order.\<close>

definition DeleteFunc :: "'a list \<Rightarrow> ('a \<Rightarrow> bool) \<Rightarrow> 'a list" where
  "DeleteFunc xs del = filter (\<lambda>x. \<not> del x) xs"

subsection \<open>Constants\<close>

definition MagicSessionErrorCode :: int where
  "MagicSessionErrorCode = 229"

definition BlockedFileTransferErrorCode :: int where
  "BlockedFileTransferErrorCode = 65"

definition BlockedFileTransferErrorMessage :: string where
  "BlockedFileTransferErrorMessage = ''File transfer has been disabled.''"

definition MagicSessionTypeEnvironmentVariable :: string where
  "MagicSessionTypeEnvironmentVariable = ''CODER_SSH_SESSION_TYPE''"

definition ContainerEnvironmentVariable :: string where
  "ContainerEnvironmentVariable = ''CODER_CONTAINER''"

definition ContainerUserEnvironmentVariable :: string where
  "ContainerUserEnvironmentVariable = ''CODER_CONTAINER_USER''"

definition BlockedFileTransferCommands :: "string list" where
  "BlockedFileTransferCommands = [''nc'', ''rsync'', ''scp'', ''sftp'']"

subsection \<open>Session classifier\<close>

text \<open>
  \<open>MagicSessionType\<close> is a Go string type; \<open>extractMagicSessionType\<close> only ever
  returns one of its four constants, which are the constructors here.
\<close>

datatype MagicSessionType =
  MagicSessionTypeUnknown
  | MagicSessionTypeSSH
  | MagicSessionTypeVSCode
  | MagicSessionTypeJetBrains

text \<open>
  The \<open>for\<close> loop of \<open>extractMagicSessionType\<close>, with \<open>rawType\<close> as accumulator.
  The loop tests the prefix without the \<open>=\<close> sign and trims the prefix with it.
\<close>

fun scanMagicSessionType :: "string \<Rightarrow> string list \<Rightarrow> string" where
  "scanMagicSessionType rawType [] = rawType"
| "scanMagicSessionType rawType (kv # env) =
     (if \<not> HasPrefix kv MagicSessionTypeEnvironmentVariable
      then scanMagicSessionType rawType env
      else scanMagicSessionType
             (TrimPrefix kv (MagicSessionTypeEnvironmentVariable @ ''='')) env)"

text \<open>The \<open>switch\<close> on the lower-cased raw type.\<close>

definition switchMagicSessionType :: "string \<Rightarrow> MagicSessionType" where
  "switchMagicSessionType lowered =
     (if lowered = ''vscode'' then MagicSessionTypeVSCode
      else if lowered = ''jetbrains'' then MagicSessionTypeJetBrains
      else if lowered = '''' \<or> lowered = ''ssh'' then MagicSessionTypeSSH
      else MagicSessionTypeUnknown)"

definition extractMagicSessionType ::
  "(string \<Rightarrow> string) \<Rightarrow> string list \<Rightarrow> MagicSessionType \<times> string \<times> string list" where
  "extractMagicSessionType mapLower env =
     (let rawType = scanMagicSessionType '''' env;
          magicType = switchMagicSessionType (ToLower mapLower rawType)
      in (magicType, rawType,
          DeleteFunc env (\<lambda>kv. HasPrefix kv (MagicSessionTypeEnvironmentVariable @ ''=''))))"

text \<open>
  The classification as the specification words it: the value of the last entry whose
  key equals the variable name, lower-cased; empty (or no entry) is \<open>ssh\<close>,
  \<open>vscode\<close> and \<open>jetbrains\<close> are themselves, any other value is \<open>unknown\<close>.
\<close>

definition envKey :: "string \<Rightarrow> string" where
  "envKey kv = takeWhile (\<lambda>c. c \<noteq> CHR ''='') kv"

definition envValue :: "string \<Rightarrow> string" where
  "envValue kv = drop 1 (dropWhile (\<lambda>c. c \<noteq> CHR ''='') kv)"

definition lastValueOf :: "string \<Rightarrow> string list \<Rightarrow> string" where
  "lastValueOf key env =
     (case filter (\<lambda>kv. envKey kv = key) env of
        [] \<Rightarrow> ''''
      | x # xs \<Rightarrow> envValue (last (x # xs)))"

definition specMagicSessionType :: "(string \<Rightarrow> string) \<Rightarrow> string list \<Rightarrow> MagicSessionType" where
  "specMagicSessionType mapLower env =
     (let v = ToLower mapLower (lastValueOf MagicSessionTypeEnvironmentVariable env)
      in if v = '''' then MagicSessionTypeSSH
         else if v = ''vscode'' then MagicSessionTypeVSCode
         else if v = ''jetbrains'' then MagicSessionTypeJetBrains
         else MagicSessionTypeUnknown)"

subsection \<open>Formatting of integers (the verb \<open>%d\<close>)\<close>

function showNat :: "nat \<Rightarrow> string" where
  "showNat n =
     (if n < 10 then [char_of (48 + n)] else showNat (n div 10) @ [char_of (48 + n mod 10)])"
  by pat_completeness auto
termination
  by (relation "measure id") auto

declare showNat.simps [simp del]

definition showInt :: "int \<Rightarrow> string" where
  "showInt i = (if i < 0 then CHR ''-'' # showNat (nat (- i)) else showNat (nat i))"

subsection \<open>Sessions and configuration\<close>

text \<open>
  What the handler reads from an \<open>ssh.Session\<close>. \<open>Command\<close> is the raw command
  split into words by the SSH library; \<open>X11\<close> is the screen number of the X11 request,
  when there is one; \<open>ident\<close> stands for the identity of the session object, the key
  of the server's session set.
\<close>

record Session =
  ident :: nat
  Environ :: "string list"
  RawCommand :: string
  Command :: "string list"
  Subsystem :: string
  RemoteAddr :: string
  X11 :: "nat option"

record BannerConfig =
  Enabled :: bool
  Message :: string

text \<open>
  The fields of \<open>Config\<close> that the modelled functions read. The function-valued
  fields \<open>MOTDFile\<close>, \<open>AnnouncementBanners\<close> and \<open>WorkingDirectory\<close> are
  represented by the value they return; \<open>AnnouncementBanners\<close> returns a pointer,
  which may be nil. \<open>UpdateEnv\<close> returns the updated environment or an error.
\<close>

record Config =
  MOTDFile :: string
  AnnouncementBanners :: "BannerConfig list option"
  UpdateEnv :: "string list \<Rightarrow> string + string list"
  WorkingDirectory :: string
  BlockFileTransfer :: bool
  ExperimentalContainers :: bool

subsection \<open>Resource tracker\<close>

text \<open>
  The fields of \<open>Server\<close> that the mutex protects, and the three connection counters.
  Listeners, connections, sessions and processes are identified by numbers. The channel
  \<open>closing\<close> is \<open>None\<close> for nil and \<open>Some ch\<close> for the channel number \<open>ch\<close>;
  \<open>nextChan\<close> numbers the channels that \<open>make\<close> creates and \<open>closedChans\<close>
  holds the channels that \<open>close\<close> has closed. \<open>wg\<close> is the counter of the wait
  group (Go panics when it would become negative; every removal in the source follows its
  addition). \<open>hostSigners\<close> is the number of host keys of the SSH library server.
\<close>

record Server =
  listeners :: "nat set"
  conns :: "nat set"
  sessions :: "nat set"
  processes :: "nat set"
  closing :: "nat option"
  nextChan :: nat
  closedChans :: "nat set"
  wg :: int
  hostSigners :: nat
  connCountVSCode :: int
  connCountJetBrains :: int
  connCountSSHSession :: int

text \<open>
  \<open>trackListener\<close> with \<open>add\<close>: one pass through the waiting loop. The result
  \<open>Inl ch\<close> says that the caller released the lock and waits to receive from the
  channel \<open>ch\<close>, after which it takes the lock and tries again; \<open>Inr s'\<close> says that
  the listener was registered.
\<close>

definition trackListener_add :: "Server \<Rightarrow> nat \<Rightarrow> nat + Server" where
  "trackListener_add s l =
     (case closing s of
        Some ch \<Rightarrow> Inl ch
      | None \<Rightarrow> Inr (s\<lparr>wg := wg s + 1, listeners := insert l (listeners s)\<rparr>))"

definition trackListener_remove :: "Server \<Rightarrow> nat \<Rightarrow> Server" where
  "trackListener_remove s l = s\<lparr>wg := wg s - 1, listeners := listeners s - {l}\<rparr>"

definition trackConn :: "Server \<Rightarrow> nat \<Rightarrow> nat \<Rightarrow> bool \<Rightarrow> bool \<times> Server" where
  "trackConn s l c add =
     (if add then
        (let found = (l \<in> listeners s) in
         if closing s \<noteq> None \<or> \<not> found then (False, s)
         else (True, s\<lparr>wg := wg s + 1, conns := insert c (conns s)\<rparr>))
      else (True, s\<lparr>wg := wg s - 1, conns := conns s - {c}\<rparr>))"

definition trackSession :: "Server \<Rightarrow> nat \<Rightarrow> bool \<Rightarrow> bool \<times> Server" where
  "trackSession s ss add =
     (if add then
        (if closing s \<noteq> None then (False, s)
         else (True, s\<lparr>wg := wg s + 1, sessions := insert ss (sessions s)\<rparr>))
      else (True, s\<lparr>wg := wg s - 1, sessions := sessions s - {ss}\<rparr>))"

definition trackProcess :: "Server \<Rightarrow> nat \<Rightarrow> bool \<Rightarrow> bool \<times> Server" where
  "trackProcess s p add =
     (if add then
        (if closing s \<noteq> None then (False, s)
         else (True, s\<lparr>wg := wg s + 1, processes := insert p (processes s)\<rparr>))
      else (True, s\<lparr>wg := wg s - 1, processes := processes s - {p}\<rparr>))"

subsection \<open>File-transfer guard\<close>

text \<open>
  \<open>filepath.Base\<close> where the path separator is the slash and there are no volume
  names (every system but Windows).
\<close>

definition Base :: "string \<Rightarrow> string" where
  "Base path =
     (if path = [] then ''.''
      else
        (let stripped = rev (dropWhile (\<lambda>c. c = CHR ''/'') (rev path));
             element = rev (takeWhile (\<lambda>c. c \<noteq> CHR ''/'') (rev stripped))
         in if element = [] then ''/'' else element))"

definition fileTransferBlocked :: "Config \<Rightarrow> Session \<Rightarrow> bool" where
  "fileTransferBlocked config session =
     (if \<not> BlockFileTransfer config then False
      else if Subsystem session = ''sftp'' then True
      else
        (case Command session of
           [] \<Rightarrow> False
         | c # _ \<Rightarrow> list_ex (\<lambda>cmd. cmd = Base c) BlockedFileTransferCommands))"

subsection \<open>Container information\<close>

fun scanContainerInfo :: "string \<times> string \<Rightarrow> string list \<Rightarrow> string \<times> string" where
  "scanContainerInfo (container, containerUser) [] = (container, containerUser)"
| "scanContainerInfo (container, containerUser) (kv # env) =
     (let container' =
            (if HasPrefix kv (ContainerEnvironmentVariable @ ''='')
             then TrimPrefix kv (ContainerEnvironmentVariable @ ''='') else container);
          containerUser' =
            (if HasPrefix kv (ContainerUserEnvironmentVariable @ ''='')
             then TrimPrefix kv (ContainerUserEnvironmentVariable @ ''='') else containerUser)
      in scanContainerInfo (container', containerUser') env)"

definition extractContainerInfo :: "string list \<Rightarrow> string \<times> string \<times> string list" where
  "extractContainerInfo env =
     (let (container, containerUser) = scanContainerInfo ([], []) env
      in (container, containerUser,
          DeleteFunc env (\<lambda>kv. HasPrefix kv (ContainerEnvironmentVariable @ ''='') \<or>
                                HasPrefix kv (ContainerUserEnvironmentVariable @ ''=''))))"

subsection \<open>Session dispatcher\<close>

text \<open>
  The results of the calls that leave the modelled code: \<open>x11Handler\<close> is the pair
  \<open>(display, handled)\<close> that \<open>x11Forwarder.x11Handler\<close> returns, \<open>sftpServer\<close>
  says whether \<open>sftp.NewServer\<close> fails and otherwise how \<open>Serve\<close> ends, and
  \<open>sessionStart\<close> is the error that \<open>Server.sessionStart\<close> returns: nil, an
  error whose chain holds an \<open>exec.ExitError\<close> with the given exit code, or any other
  error with its message. \<open>mapToLower\<close> is \<open>strings.Map(unicode.ToLower, s)\<close>,
  to which \<open>strings.ToLower\<close> goes for a string that is not all ASCII.
\<close>

datatype runError = ExitError int | OtherError string

datatype serveError = ServeNil | ServeEOF | ServeError string

datatype sftpOutcome = NewServerFails string | Serves serveError

record Outcomes =
  x11Handler :: "int \<times> bool"
  sftpServer :: sftpOutcome
  sessionStart :: "runError option"
  mapToLower :: "string \<Rightarrow> string"

text \<open>
  What the handler does to its surroundings, in order: the calls of
  \<open>config.ReportConnection\<close> and of the callback it returned, the calls of \<open>Write\<close>,
  \<open>Exit\<close> and \<open>Close\<close> on the underlying session, and the calls that may start a
  process or a server (\<open>x11Handler\<close>, \<open>sftp.Server.Serve\<close>, \<open>sessionStart\<close> with
  its environment, session type, container and container user). The random session
  id, logging and metrics are left out.
\<close>

datatype event =
  ReportConnection MagicSessionType string
  | Disconnected int string
  | SessionWrite string
  | SessionExit int
  | SessionClose
  | X11Handler
  | SftpServe
  | SessionStart "string list" MagicSessionType string string

record sessionCloseTracker =
  exitOnce :: bool
  code :: int

definition track :: "int \<Rightarrow> sessionCloseTracker \<Rightarrow> sessionCloseTracker" where
  "track c t = (if exitOnce t then t else \<lparr>exitOnce = True, code = c\<rparr>)"

definition exitCode :: "sessionCloseTracker \<Rightarrow> int" where
  "exitCode t = code t"

text \<open>
  The state of one run of the handler: the events so far, the close tracker when the
  session has been wrapped in one (\<open>reportSession\<close>), and the variable \<open>reason\<close>
  that \<open>closeCause\<close> assigns. \<open>Exit\<close> and \<open>Close\<close> on the wrapped session first
  tell the tracker and then call the underlying session.
\<close>

record handlerState =
  trace :: "event list"
  scr :: "sessionCloseTracker option"
  reason :: string

definition session_Exit :: "int \<Rightarrow> handlerState \<Rightarrow> handlerState" where
  "session_Exit c st =
     st\<lparr>scr := map_option (track c) (scr st), trace := trace st @ [SessionExit c]\<rparr>"

definition session_Close :: "handlerState \<Rightarrow> handlerState" where
  "session_Close st =
     st\<lparr>scr := map_option (track 1) (scr st), trace := trace st @ [SessionClose]\<rparr>"

definition session_Write :: "string \<Rightarrow> handlerState \<Rightarrow> handlerState" where
  "session_Write bytes st = st\<lparr>trace := trace st @ [SessionWrite bytes]\<rparr>"

definition closeCause :: "string \<Rightarrow> handlerState \<Rightarrow> handlerState" where
  "closeCause r st = (case scr st of None \<Rightarrow> st | Some _ \<Rightarrow> st\<lparr>reason := r\<rparr>)"

text \<open>
  \<open>sftpHandler\<close>. The deferred \<open>server.Close()\<close> closes the session it serves, as the
  comment in the source says.
\<close>

definition sftpHandler :: "Outcomes \<Rightarrow> handlerState \<Rightarrow> handlerState \<times> string option" where
  "sftpHandler out st =
     (case sftpServer out of
        NewServerFails e \<Rightarrow> (st, Some (''initialize sftp server: '' @ e))
      | Serves r \<Rightarrow>
          (let st1 = st\<lparr>trace := trace st @ [SftpServe]\<rparr> in
           case r of
             ServeError e \<Rightarrow>
               (session_Close (session_Exit 1 st1),
                Some (''sftp server closed with error: '' @ e))
           | _ \<Rightarrow> (session_Close (session_Exit 0 st1), None)))"

text \<open>The handler from the call of \<open>sessionStart\<close> on.\<close>

definition runSession ::
  "Outcomes \<Rightarrow> string list \<Rightarrow> MagicSessionType \<Rightarrow> string \<Rightarrow> string \<Rightarrow>
   handlerState \<Rightarrow> handlerState" where
  "runSession out env magicType container containerUser st =
     (let st1 = st\<lparr>trace := trace st @ [SessionStart env magicType container containerUser]\<rparr> in
      case sessionStart out of
        Some (ExitError exitCode') \<Rightarrow>
          (let code' = (if exitCode' = - 1 then 255 else exitCode') in
           session_Exit code'
             (closeCause (''process exited with error status: '' @ showInt exitCode') st1))
      | Some (OtherError msg) \<Rightarrow> session_Exit MagicSessionErrorCode (closeCause msg st1)
      | None \<Rightarrow> session_Exit 0 st1)"

text \<open>The handler from the file-transfer guard on.\<close>

definition dispatch ::
  "Config \<Rightarrow> Outcomes \<Rightarrow> Session \<Rightarrow> string list \<Rightarrow> MagicSessionType \<Rightarrow>
   handlerState \<Rightarrow> handlerState" where
  "dispatch config out session env magicType st =
     (if fileTransferBlocked config session then
        (let st1 =
               (if Subsystem session = []
                then session_Write (CHR 0x02 # BlockedFileTransferErrorMessage @ [CHR 0x0A]) st
                else st)
         in session_Exit BlockedFileTransferErrorCode (closeCause ''file transfer blocked'' st1))
      else
        (let (container, containerUser, env1) = extractContainerInfo env in
         if Subsystem session = [] then
           (case X11 session of
              None \<Rightarrow> runSession out env1 magicType container containerUser st
            | Some screenNumber \<Rightarrow>
                (let (display, handled) = x11Handler out;
                     st1 = st\<lparr>trace := trace st @ [X11Handler]\<rparr>
                 in if \<not> handled then session_Exit 1 (closeCause ''x11 handler failed'' st1)
                    else runSession out
                           (env1 @ [''DISPLAY=localhost:'' @ showInt display @ ''.'' @
                                    showNat screenNumber])
                           magicType container containerUser st1))
         else if Subsystem session = ''sftp'' then
           (if ExperimentalContainers config \<and> container \<noteq> [] then
              session_Exit 1 (closeCause ''sftp not yet supported with containers'' st)
            else
              (case sftpHandler out st of
                 (st1, Some err) \<Rightarrow> closeCause err st1
               | (st1, None) \<Rightarrow> st1))
         else
           session_Exit 1
             (closeCause (''unsupported subsystem: '' @ Subsystem session) st)))"

text \<open>
  The \<open>switch\<close> on the session type that counts the session, and its deferred
  counterpart: \<open>d\<close> is 1 on entry and -1 on exit.
\<close>

definition countSession :: "MagicSessionType \<Rightarrow> int \<Rightarrow> Server \<Rightarrow> Server" where
  "countSession magicType d s =
     (case magicType of
        MagicSessionTypeVSCode \<Rightarrow> s\<lparr>connCountVSCode := connCountVSCode s + d\<rparr>
      | MagicSessionTypeJetBrains \<Rightarrow> s
      | MagicSessionTypeSSH \<Rightarrow> s\<lparr>connCountSSHSession := connCountSSHSession s + d\<rparr>
      | MagicSessionTypeUnknown \<Rightarrow> s)"

text \<open>
  \<open>sessionHandler\<close>. The deferred calls run when the handler returns, the last
  deferred first: the \<open>disconnected\<close> callback, the decrement of the counter, the
  removal of the session from the tracker.
\<close>

definition sessionHandler ::
  "Config \<Rightarrow> Outcomes \<Rightarrow> Server \<Rightarrow> Session \<Rightarrow> event list \<times> Server" where
  "sessionHandler config out s session =
     (let (magicType, magicTypeRaw, env) =
            extractMagicSessionType (mapToLower out) (Environ session) in
      case trackSession s (ident session) True of
        (False, s1) \<Rightarrow>
          ([ReportConnection magicType (RemoteAddr session), SessionClose,
            Disconnected 1 ''unable to accept new session, server is closing''], s1)
      | (True, s1) \<Rightarrow>
          (let s2 = countSession magicType 1 s1;
               reportSession = (magicType \<noteq> MagicSessionTypeJetBrains);
               st0 =
                 (if reportSession
                  then \<lparr>trace = [ReportConnection magicType (RemoteAddr session)],
                        scr = Some \<lparr>exitOnce = False, code = 0\<rparr>, reason = []\<rparr>
                  else \<lparr>trace = [], scr = None, reason = []\<rparr>);
               st1 = dispatch config out session env magicType st0;
               tr =
                 (case scr st1 of
                    Some t \<Rightarrow> trace st1 @ [Disconnected (exitCode t) (reason st1)]
                  | None \<Rightarrow> trace st1);
               s3 = countSession magicType (- 1) s2;
               (ok, s4) = trackSession s3 (ident session) False
           in (tr, s4)))"

subsection \<open>Reading a trace\<close>

definition isReportConnection :: "event \<Rightarrow> bool" where
  "isReportConnection e = (case e of ReportConnection _ _ \<Rightarrow> True | _ \<Rightarrow> False)"

definition isDisconnected :: "event \<Rightarrow> bool" where
  "isDisconnected e = (case e of Disconnected _ _ \<Rightarrow> True | _ \<Rightarrow> False)"

definition isSessionExit :: "event \<Rightarrow> bool" where
  "isSessionExit e = (case e of SessionExit _ \<Rightarrow> True | _ \<Rightarrow> False)"

definition isSessionStart :: "event \<Rightarrow> bool" where
  "isSessionStart e = (case e of SessionStart _ _ _ _ \<Rightarrow> True | _ \<Rightarrow> False)"

text \<open>The events other than the two reporting calls.\<close>

definition sessionCalls :: "event list \<Rightarrow> event list" where
  "sessionCalls tr = filter (\<lambda>e. \<not> isReportConnection e \<and> \<not> isDisconnected e) tr"

text \<open>
  The final exit code of a session, read from the calls on it: the first code passed to
  \<open>Exit\<close>, 1 when \<open>Close\<close> came before any \<open>Exit\<close>, nothing when neither was called.
\<close>

fun firstExitCode :: "event list \<Rightarrow> int option" where
  "firstExitCode [] = None"
| "firstExitCode (SessionExit c # es) = Some c"
| "firstExitCode (SessionClose # es) = Some 1"
| "firstExitCode (e # es) = firstExitCode es"

text \<open>
  The state of the handler after the events \<open>mid\<close>, started from the events \<open>pre\<close>:
  the events are not reporting calls, and the close tracker, when there is one, holds the
  exit code that \<open>mid\<close> determines.
\<close>

definition tracked :: "event list \<Rightarrow> event list \<Rightarrow> handlerState \<Rightarrow> bool" where
  "tracked pre mid st =
     (trace st = pre @ mid \<and>
      list_all (\<lambda>e. \<not> isReportConnection e \<and> \<not> isDisconnected e) mid \<and>
      (case scr st of
         None \<Rightarrow> True
       | Some t \<Rightarrow>
           (if exitOnce t then firstExitCode mid = Some (code t)
            else firstExitCode mid = None \<and> code t = 0)))"

text \<open>
  A session wrapped in a fresh close tracker, as the handler makes it, and the calls of
  \<open>Write\<close>, \<open>Exit\<close> and \<open>Close\<close> on a wrapped session, replayed from their
  events (the other events are no calls on the session).
\<close>

definition wrappedSession :: handlerState where
  "wrappedSession = \<lparr>trace = [], scr = Some \<lparr>exitOnce = False, code = 0\<rparr>, reason = []\<rparr>"

definition sessionCall :: "event \<Rightarrow> handlerState \<Rightarrow> handlerState" where
  "sessionCall e st =
     (case e of
        SessionExit c \<Rightarrow> session_Exit c st
      | SessionClose \<Rightarrow> session_Close st
      | SessionWrite bytes \<Rightarrow> session_Write bytes st
      | _ \<Rightarrow> st)"

subsection \<open>Example inputs\<close>

definition exampleServer :: Server where
  "exampleServer =
     \<lparr>listeners = {}, conns = {}, sessions = {}, processes = {}, closing = None,
      nextChan = 0, closedChans = {}, wg = 0, hostSigners = 1, connCountVSCode = 0,
      connCountJetBrains = 0, connCountSSHSession = 0\<rparr>"

definition exampleConfig :: Config where
  "exampleConfig =
     \<lparr>MOTDFile = [], AnnouncementBanners = None, UpdateEnv = Inr, WorkingDirectory = [],
      BlockFileTransfer = True, ExperimentalContainers = False\<rparr>"

definition exampleSession :: Session where
  "exampleSession =
     \<lparr>ident = 7, Environ = [''CODER_SSH_SESSION_TYPE=vscode'', ''LANG=C''],
      RawCommand = ''echo hi'', Command = [''echo'', ''hi''], Subsystem = [],
      RemoteAddr = ''10.0.0.1:4022'', X11 = None\<rparr>"

definition scpSession :: Session where
  "scpSession =
     exampleSession\<lparr>RawCommand := ''/usr/bin/scp -t /tmp'',
                     Command := [''/usr/bin/scp'', ''-t'', ''/tmp'']\<rparr>"

text \<open>
  The environments of the examples are ASCII, so that the lower-casing of other strings
  is never consulted; the identity stands in for it.
\<close>

definition exampleOutcomes :: Outcomes where
  "exampleOutcomes =
     \<lparr>x11Handler = (10, True), sftpServer = Serves ServeEOF,
      sessionStart = Some (ExitError (- 1)), mapToLower = (\<lambda>s. s)\<rparr>"

definition closingServer :: Server where
  "closingServer = exampleServer\<lparr>closing := Some 0, nextChan := 1\<rparr>"

subsection \<open>Command builder\<close>

text \<open>
  The fields of \<open>pty.Cmd\<close> that \<open>CreateCommand\<close> sets, and the interface
  \<open>usershell.EnvInfoer\<close> with its five methods; a method that can fail returns the
  error message on the left.
\<close>

record Cmd =
  Path :: string
  Args :: "string list"
  Dir :: string
  Env :: "string list"

record EnvInfoer =
  User :: "string + string"
  Shell :: "string \<Rightarrow> string + string"
  HomeDir :: "string + string"
  Environ_info :: "string list"
  ModifyCommand :: "string \<Rightarrow> string list \<Rightarrow> string \<times> string list"

text \<open>
  What the command builder takes from outside this file: whether \<open>runtime.GOOS\<close> is
  \<open>windows\<close>, whether \<open>os.Stat\<close> succeeds on a path, the default
  \<open>usershell.SystemEnvInfo\<close>, \<open>shellquote.Split\<close>, and the method
  \<open>PTYCommandContext\<close> of the server's \<open>Execer\<close>.
\<close>

record Deps =
  windows :: bool
  Stat :: "string \<Rightarrow> bool"
  SystemEnvInfo :: EnvInfoer
  Split :: "string \<Rightarrow> string + string list"
  PTYCommandContext :: "string \<Rightarrow> string list \<Rightarrow> Cmd"

text \<open>A function returns a value, returns an error, or panics.\<close>

datatype 'a result = Result 'a | Error string | Panic string

definition CommandEnv ::
  "Deps \<Rightarrow> Config \<Rightarrow> EnvInfoer option \<Rightarrow> string list \<Rightarrow>
   string + (string \<times> string \<times> string list)" where
  "CommandEnv d config ei addEnv =
     (let ei = (case ei of None \<Rightarrow> SystemEnvInfo d | Some e \<Rightarrow> e) in
      case User ei of
        Inl err \<Rightarrow> Inl (''get current user: '' @ err)
      | Inr username \<Rightarrow>
          (case Shell ei username of
             Inl err \<Rightarrow> Inl (''get user shell: '' @ err)
           | Inr shell \<Rightarrow>
               (let dir = WorkingDirectory config;
                    statOk = Stat d dir;
                    dirOrErr =
                      (if dir = [] \<or> \<not> statOk then
                         (case HomeDir ei of
                            Inl err \<Rightarrow> Inl (''get home dir: '' @ err)
                          | Inr homedir \<Rightarrow> Inr homedir)
                       else Inr dir)
                in case dirOrErr of
                     Inl err \<Rightarrow> Inl err
                   | Inr dir' \<Rightarrow>
                       (let env = Environ_info ei @ addEnv @
                                  [''USER='' @ username, ''LOGNAME='' @ username,
                                   ''SHELL='' @ shell]
                        in case UpdateEnv config env of
                             Inl err \<Rightarrow> Inl (''apply env: '' @ err)
                           | Inr env' \<Rightarrow> Inr (shell, dir', env')))))"

text \<open>
  The text that \<open>CreateCommand\<close> hands to \<open>shellquote.Split\<close>: the first line of
  the trimmed script, trimmed, without the leading \<open>#!\<close>.
\<close>

definition shebangLine :: "string \<Rightarrow> string" where
  "shebangLine script =
     TrimPrefix (TrimSpace (takeWhile (\<lambda>c. c \<noteq> CHR 0x0A) (TrimSpace script))) ''#!''"

definition CreateCommand ::
  "Deps \<Rightarrow> Config \<Rightarrow> string \<Rightarrow> string list \<Rightarrow> EnvInfoer option \<Rightarrow> Cmd result" where
  "CreateCommand d config script env ei =
     (let ei' = (case ei of None \<Rightarrow> SystemEnvInfo d | Some e \<Rightarrow> e) in
      case CommandEnv d config (Some ei') env of
        Inl err \<Rightarrow> Error (''prepare command env: '' @ err)
      | Inr (shell, dir, env') \<Rightarrow>
          (let caller = (if windows d then ''/c'' else ''-c'');
               shebangResult =
                 (if HasPrefix (TrimSpace script) ''#!'' then
                    (case Split d (shebangLine script) of
                       Inl err \<Rightarrow> Error (''split shebang: '' @ err)
                     | Inr [] \<Rightarrow> Panic ''index out of range [0] with length 0''
                     | Inr (w # ws) \<Rightarrow> Result (w, ws @ [caller, script]))
                  else Result (shell, [caller, script]))
           in case shebangResult of
                Error e \<Rightarrow> Error e
              | Panic p \<Rightarrow> Panic p
              | Result (name, args) \<Rightarrow>
                  (let args' =
                         (if script = [] then (if windows d then [] else [''-l''])
                          else args);
                       (modifiedName, modifiedArgs) = ModifyCommand ei' name args';
                       cmd = PTYCommandContext d modifiedName modifiedArgs
                   in Result
                        (cmd\<lparr>Dir := dir,
                             Env := env' @ [''SSH_CLIENT=0.0.0.0 0 0'',
                                            ''SSH_CONNECTION=0.0.0.0 0 0.0.0.0 0'']\<rparr>))))"

text \<open>
  Example values for what comes from outside: a Linux system with the user \<open>coder\<close>,
  the plain \<open>Execer\<close>, and a stand-in for \<open>shellquote.Split\<close> that splits at
  blanks and reports a double quote without its partner (as \<open>shellquote.Split\<close> does
  on the inputs of the examples).
\<close>

fun fields :: "string \<Rightarrow> string \<Rightarrow> string list" where
  "fields w [] = (if w = [] then [] else [w])"
| "fields w (c # cs) =
     (if c = CHR '' '' then (if w = [] then fields [] cs else w # fields [] cs)
      else fields (w @ [c]) cs)"

definition exampleSplit :: "string \<Rightarrow> string + string list" where
  "exampleSplit s =
     (if odd (length (filter (\<lambda>c. c = CHR 0x22) s))
      then Inl ''Unterminated double-quoted string''
      else Inr (fields [] s))"

definition exampleSystemEnvInfo :: EnvInfoer where
  "exampleSystemEnvInfo =
     \<lparr>User = Inr ''coder'', Shell = (\<lambda>username. Inr ''/bin/bash''),
      HomeDir = Inr ''/home/coder'', Environ_info = [''PATH=/usr/bin''],
      ModifyCommand = (\<lambda>name args. (name, args))\<rparr>"

definition exampleDeps :: Deps where
  "exampleDeps =
     \<lparr>windows = False, Stat = (\<lambda>path. path = ''/home/coder'' \<or> path = ''/workspace''),
      SystemEnvInfo = exampleSystemEnvInfo, Split = exampleSplit,
      PTYCommandContext = (\<lambda>name args. \<lparr>Path = name, Args = name # args, Dir = [], Env = []\<rparr>)\<rparr>"

text \<open>An \<open>EnvInfoer\<close> that runs the command in a container, as the container helper does.\<close>

definition exampleContainerEnvInfo :: EnvInfoer where
  "exampleContainerEnvInfo =
     exampleSystemEnvInfo
       \<lparr>ModifyCommand := (\<lambda>name args. (''docker'', [''exec'', ''-it'', ''box'', name] @ args))\<rparr>"

definition shebangScript :: string where
  "shebangScript = ''#!/usr/bin/env python3'' @ [CHR 0x0A] @ ''print(1)''"

definition workspaceConfig :: Config where
  "workspaceConfig = exampleConfig\<lparr>WorkingDirectory := ''/workspace''\<rparr>"

definition exampleEnv :: "string list" where
  "exampleEnv =
     [''PATH=/usr/bin'', ''TERM=xterm'', ''USER=coder'', ''LOGNAME=coder'',
      ''SHELL=/bin/bash'', ''SSH_CLIENT=0.0.0.0 0 0'', ''SSH_CONNECTION=0.0.0.0 0 0.0.0.0 0'']"

subsection \<open>Banner and MOTD writer\<close>

text \<open>
  An \<open>io.Reader\<close> delivers its content and then ends, with \<open>io.EOF\<close> (\<open>None\<close>) or
  with a read error. An \<open>io.Writer\<close> is followed through the number of calls of
  \<open>Write\<close> and the bytes it has accepted; whether the call number \<open>n\<close> fails, with
  which message, and after how many bytes of its argument, is given from outside
  (\<open>Write\<close> returns the number of bytes it has written along with the error).
\<close>

record Reader =
  content :: string
  readErr :: "string option"

record Writer =
  calls :: nat
  written :: string

definition Fprint ::
  "(nat \<Rightarrow> (string \<times> nat) option) \<Rightarrow> Writer \<Rightarrow> string \<Rightarrow> string option \<times> Writer" where
  "Fprint fails w s =
     (case fails (calls w) of
        Some (err, n) \<Rightarrow> (Some err, \<lparr>calls = calls w + 1, written = written w @ take n s\<rparr>)
      | None \<Rightarrow> (None, \<lparr>calls = calls w + 1, written = written w @ s\<rparr>))"

text \<open>
  \<open>bufio.Scanner\<close> with its default split function \<open>ScanLines\<close> and its default
  buffer: the lines end at a newline, a last line without newline counts when it is not
  empty, one trailing carriage return is dropped from each line, and the scanner stops
  with \<open>ErrTooLong\<close> at the first line of \<open>MaxScanTokenSize\<close> bytes or more.
  \<open>scanLines\<close> returns the tokens that \<open>Scan\<close> delivers and the final value of
  \<open>Err()\<close>.
\<close>

definition MaxScanTokenSize :: nat where
  "MaxScanTokenSize = 65536"

fun rawLines :: "string \<Rightarrow> string \<Rightarrow> string list" where
  "rawLines line [] = (if line = [] then [] else [line])"
| "rawLines line (c # cs) =
     (if c = CHR 0x0A then line # rawLines [] cs else rawLines (line @ [c]) cs)"

definition dropCR :: "string \<Rightarrow> string" where
  "dropCR line = (if line \<noteq> [] \<and> last line = CHR 0x0D then butlast line else line)"

definition scanLines :: "Reader \<Rightarrow> string list \<times> string option" where
  "scanLines src =
     (let ls = rawLines [] (content src);
          short = takeWhile (\<lambda>l. length l < MaxScanTokenSize) ls
      in (map dropCR short,
          if length short < length ls then Some ''bufio.Scanner: token too long''
          else readErr src))"

text \<open>The loop of \<open>writeWithCarriageReturn\<close> over the tokens of the scanner.\<close>

fun writeLines :: "(nat \<Rightarrow> (string \<times> nat) option) \<Rightarrow> string list \<Rightarrow> Writer \<Rightarrow> string option \<times> Writer" where
  "writeLines fails [] dest = (None, dest)"
| "writeLines fails (text # rest) dest =
     (case Fprint fails dest (text @ [CHR 0x0D, CHR 0x0A]) of
        (Some err, dest') \<Rightarrow> (Some (''write line: '' @ err), dest')
      | (None, dest') \<Rightarrow> writeLines fails rest dest')"

definition writeWithCarriageReturn ::
  "(nat \<Rightarrow> (string \<times> nat) option) \<Rightarrow> Reader \<Rightarrow> Writer \<Rightarrow> string option \<times> Writer" where
  "writeWithCarriageReturn fails src dest =
     (let (tokens, scanErr) = scanLines src in
      case writeLines fails tokens dest of
        (Some err, dest') \<Rightarrow> (Some err, dest')
      | (None, dest') \<Rightarrow>
          (case scanErr of
             Some err \<Rightarrow> (Some (''read line: '' @ err), dest')
           | None \<Rightarrow> (None, dest')))"

definition showAnnouncementBanner ::
  "(nat \<Rightarrow> (string \<times> nat) option) \<Rightarrow> Writer \<Rightarrow> BannerConfig \<Rightarrow> string option \<times> Writer" where
  "showAnnouncementBanner fails session banner =
     (if Enabled banner \<and> Message banner \<noteq> [] then
        writeWithCarriageReturn fails
          \<lparr>content = TrimSpace (Message banner) @ [CHR 0x0A, CHR 0x0A], readErr = None\<rparr> session
      else (None, session))"

text \<open>
  The file system (\<open>afero.Fs\<close>) as far as the writer uses it, with \<open>filepath.Join\<close>
  and the result of \<open>userHomeDir()\<close>: \<open>fsStat\<close> says whether \<open>Stat\<close> succeeds.
\<close>

datatype openResult = ErrNotExist | OpenFails string | Opened Reader

record Fs =
  fsStat :: "string \<Rightarrow> bool"
  fsOpen :: "string \<Rightarrow> openResult"
  Join :: "string \<Rightarrow> string \<Rightarrow> string"
  userHomeDir :: "string + string"

definition isLoginShell :: "string \<Rightarrow> bool" where
  "isLoginShell rawCommand = (length rawCommand = 0)"

definition isQuietLogin :: "Fs \<Rightarrow> string \<Rightarrow> bool" where
  "isQuietLogin fs rawCommand =
     (if \<not> isLoginShell rawCommand then True
      else
        (case userHomeDir fs of
           Inl err \<Rightarrow> False
         | Inr homedir \<Rightarrow> fsStat fs (Join fs homedir ''.hushlogin'')))"

definition showMOTD ::
  "Fs \<Rightarrow> (nat \<Rightarrow> (string \<times> nat) option) \<Rightarrow> Writer \<Rightarrow> string \<Rightarrow> string option \<times> Writer" where
  "showMOTD fs fails dest filename =
     (if filename = [] then (None, dest)
      else
        (case fsOpen fs filename of
           ErrNotExist \<Rightarrow> (None, dest)
         | OpenFails err \<Rightarrow> (Some (''open MOTD: '' @ err), dest)
         | Opened f \<Rightarrow> writeWithCarriageReturn fails f dest))"

subsection \<open>PTY session runner\<close>

text \<open>
  The loop over the announcement banners in \<open>startPTYSession\<close>, which ends at the first
  banner that cannot be shown.
\<close>

fun showBanners ::
  "(nat \<Rightarrow> (string \<times> nat) option) \<Rightarrow> BannerConfig list \<Rightarrow> Writer \<Rightarrow> string option \<times> Writer" where
  "showBanners fails [] session = (None, session)"
| "showBanners fails (banner # banners) session =
     (case showAnnouncementBanner fails session banner of
        (Some err, session') \<Rightarrow> (Some err, session')
      | (None, session') \<Rightarrow> showBanners fails banners session')"

text \<open>
  What happens to the process outside this file: whether a write to the session fails
  (and after how many bytes), the error of \<open>pty.Start\<close>, of the copy of the output
  of the PTY to the session, of \<open>process.Wait\<close> and of \<open>ptty.Close\<close>.
\<close>

record PtyOutcomes =
  writeFails :: "nat \<Rightarrow> (string \<times> nat) option"
  ptyStart :: "string option"
  copyOutput :: "string option"
  processWait :: "runError option"
  ptyClose :: "string option"

text \<open>
  The result of \<open>startPTYSession\<close>: the errors it logged, what the session received
  before the process was started, the command it handed to \<open>pty.Start\<close>, and the
  error it returned.
\<close>

record ptyRun =
  logged :: "string list"
  received :: Writer
  startedCmd :: Cmd
  returned :: "runError option"

text \<open>The part of \<open>startPTYSession\<close> from \<open>pty.Start\<close> on.\<close>

definition runPty :: "PtyOutcomes \<Rightarrow> string list \<times> runError option" where
  "runPty out =
     (case ptyStart out of
        Some err \<Rightarrow> ([], Some (OtherError (''start command: '' @ err)))
      | None \<Rightarrow>
          (let (logs, retErr) =
                 (case copyOutput out of
                    Some err \<Rightarrow> ([], Some (OtherError (''copy error: '' @ err)))
                  | None \<Rightarrow>
                      (case processWait out of
                         Some (ExitError c) \<Rightarrow> ([], Some (ExitError c))
                       | Some (OtherError err) \<Rightarrow>
                           ([''process wait exited with error''],
                            Some (OtherError (''process wait: '' @ err)))
                       | None \<Rightarrow> ([], None)))
           in case ptyClose out of
                Some closeErr \<Rightarrow>
                  (logs @ [''failed to close tty''],
                   if retErr = None then Some (OtherError closeErr) else retErr)
              | None \<Rightarrow> (logs, retErr)))"

definition startPTYSession ::
  "Config \<Rightarrow> Fs \<Rightarrow> PtyOutcomes \<Rightarrow> string \<Rightarrow> Cmd \<Rightarrow> string \<Rightarrow> ptyRun" where
  "startPTYSession config fs out rawCommand cmd term =
     (let session0 = \<lparr>calls = 0, written = []\<rparr>;
          (bannerErr, session1) =
            (if isLoginShell rawCommand then
               (case AnnouncementBanners config of
                  None \<Rightarrow> (None, session0)
                | Some banners \<Rightarrow> showBanners (writeFails out) banners session0)
             else (None, session0));
          bannerLog =
            (case bannerErr of
               Some err \<Rightarrow> [''agent failed to show announcement banner'']
             | None \<Rightarrow> []);
          (motdErr, session2) =
            (if \<not> isQuietLogin fs rawCommand
             then showMOTD fs (writeFails out) session1 (MOTDFile config)
             else (None, session1));
          motdLog =
            (case motdErr of Some err \<Rightarrow> [''agent failed to show MOTD''] | None \<Rightarrow> []);
          cmd' = cmd\<lparr>Env := Env cmd @ [''TERM='' @ term]\<rparr>;
          (logs, retErr) = runPty out
      in \<lparr>logged = bannerLog @ motdLog @ logs, received = session2, startedCmd = cmd',
          returned = retErr\<rparr>)"





text \<open>Example values: a file system with a MOTD file and no \<open>.hushlogin\<close>.\<close>

definition exampleFs :: Fs where
  "exampleFs =
     \<lparr>fsStat = (\<lambda>path. path = ''/etc/motd''),
      fsOpen = (\<lambda>path. if path = ''/etc/motd''
                        then Opened \<lparr>content = ''Welcome'' @ [CHR 0x0A] @ ''to the workspace'' @ [CHR 0x0A],
                                     readErr = None\<rparr>
                        else ErrNotExist),
      Join = (\<lambda>dir name. dir @ ''/'' @ name),
      userHomeDir = Inr ''/home/coder''\<rparr>"

definition examplePtyOutcomes :: PtyOutcomes where
  "examplePtyOutcomes =
     \<lparr>writeFails = (\<lambda>n. None), ptyStart = None, copyOutput = None,
      processWait = None, ptyClose = None\<rparr>"

definition bannerConfig :: Config where
  "bannerConfig =
     exampleConfig
       \<lparr>MOTDFile := ''/etc/motd'',
        AnnouncementBanners :=
          Some [\<lparr>Enabled = True, Message = ''  Maintenance at noon  ''\<rparr>,
                \<lparr>Enabled = False, Message = ''Old news''\<rparr>,
                \<lparr>Enabled = True, Message = ''Be kind''\<rparr>]\<rparr>"

definition shellCmd :: Cmd where
  "shellCmd = \<lparr>Path = ''/bin/bash'', Args = [''/bin/bash'', ''-l''], Dir = ''/home/coder'',
               Env = exampleEnv\<rparr>"


subsection \<open>Server life cycle\<close>

text \<open>
  \<open>NewServer\<close> as far as the tracker goes: nothing is tracked, \<open>closing\<close> is nil and
  there is no host key. \<open>UpdateHostSigner\<close> adds the key derived from the seed, or
  replaces the key of the same algorithm (key generation is taken to succeed).
\<close>

definition NewServer :: Server where
  "NewServer =
     \<lparr>listeners = {}, conns = {}, sessions = {}, processes = {}, closing = None,
      nextChan = 0, closedChans = {}, wg = 0, hostSigners = 0, connCountVSCode = 0,
      connCountJetBrains = 0, connCountSSHSession = 0\<rparr>"

definition UpdateHostSigner :: "Server \<Rightarrow> Server" where
  "UpdateHostSigner s = s\<lparr>hostSigners := (if hostSigners s = 0 then 1 else hostSigners s)\<rparr>"

text \<open>
  Nothing is ever sent on the channel \<open>closing\<close>: a receive from it returns when, and
  only when, the channel has been closed.
\<close>

definition receiveReturns :: "Server \<Rightarrow> nat \<Rightarrow> bool" where
  "receiveReturns s ch = (ch \<in> closedChans s)"

text \<open>
  \<open>Serve\<close> up to the registration of the listener: an error when no host key is set,
  otherwise the result of \<open>trackListener\<close>; the accept loop follows.
\<close>

definition Serve_begin :: "Server \<Rightarrow> nat \<Rightarrow> string + (nat + Server)" where
  "Serve_begin s l =
     (if hostSigners s = 0 then Inl ''no host keys set'' else Inr (trackListener_add s l))"

text \<open>
  What \<open>Close\<close> does to the tracked resources, in this order; the members of one set
  are visited in the order of a Go map. \<open>cmdCancel\<close>, which signals a process, is
  defined in another file of the package.
\<close>

datatype closeEffect =
  CloseListeners "nat set"
  | CloseSessions "nat set"
  | CloseConns "nat set"
  | CmdCancelProcesses "nat set"
  | CloseSSHServer
  | CloseX11Forwarder

text \<open>
  \<open>Close\<close> runs in three steps. \<open>Close_enter\<close> is the first critical section: when
  \<open>closing\<close> is set, the caller releases the lock and waits to receive from that
  channel (\<open>Inl ch\<close>), after which it returns the error \<open>server is closed\<close>;
  otherwise it makes the channel, closes what is tracked and releases the lock. Then the
  caller waits until the counter of the wait group is zero. \<open>Close_finish\<close> is the last
  critical section: it closes the channel and resets \<open>closing\<close>; the caller then returns
  the error of the close of the SSH library server.
\<close>

definition Close_enter :: "Server \<Rightarrow> nat + (Server \<times> closeEffect list)" where
  "Close_enter s =
     (case closing s of
        Some ch \<Rightarrow> Inl ch
      | None \<Rightarrow>
          Inr (s\<lparr>closing := Some (nextChan s), nextChan := nextChan s + 1\<rparr>,
               [CloseListeners (listeners s), CloseSessions (sessions s),
                CloseConns (conns s), CmdCancelProcesses (processes s),
                CloseSSHServer, CloseX11Forwarder]))"

definition waitGroupDone :: "Server \<Rightarrow> bool" where
  "waitGroupDone s = (wg s = 0)"

definition Close_finish :: "Server \<Rightarrow> Server result" where
  "Close_finish s =
     (case closing s of
        None \<Rightarrow> Panic ''close of nil channel''
      | Some ch \<Rightarrow> Result (s\<lparr>closedChans := insert ch (closedChans s), closing := None\<rparr>))"

text \<open>
  The steps of one call of \<open>Close\<close> as a function of the state in which each step
  runs: \<open>Close_step\<close> gives the next position of the caller and the next state, or
  \<open>None\<close> when the caller cannot go on in this state. \<open>err\<close> is the error of the
  close of the SSH library server.
\<close>

datatype closePosition =
  CloseCalled
  | CloseWaitsFor nat
  | CloseDrains
  | CloseReturned "string option"
  | ClosePanicked

definition Close_step ::
  "string option \<Rightarrow> closePosition \<Rightarrow> Server \<Rightarrow> (closePosition \<times> Server) option" where
  "Close_step err pos s =
     (case pos of
        CloseCalled \<Rightarrow>
          (case Close_enter s of
             Inl ch \<Rightarrow> Some (CloseWaitsFor ch, s)
           | Inr (s', effects) \<Rightarrow> Some (CloseDrains, s'))
      | CloseWaitsFor ch \<Rightarrow>
          (if receiveReturns s ch then Some (CloseReturned (Some ''server is closed''), s)
           else None)
      | CloseDrains \<Rightarrow>
          (if waitGroupDone s then
             (case Close_finish s of
                Result s' \<Rightarrow> Some (CloseReturned err, s')
              | _ \<Rightarrow> Some (ClosePanicked, s))
           else None)
      | CloseReturned e \<Rightarrow> None
      | ClosePanicked \<Rightarrow> None)"

text \<open>
  The property of the tracker state that every step keeps: the channel in \<open>closing\<close>
  has been made and is not closed, and only channels that have been made are closed.
\<close>

definition serverInv :: "Server \<Rightarrow> bool" where
  "serverInv s =
     ((case closing s of None \<Rightarrow> True | Some ch \<Rightarrow> ch < nextChan s \<and> ch \<notin> closedChans s) \<and>
      (\<forall>ch\<in>closedChans s. ch < nextChan s))"

subsection \<open>Shutdown\<close>

text \<open>
  Time is counted in steps. A context is cancelled at some time, or never, and from then
  on \<open>Err()\<close> returns its error and \<open>Done()\<close> is closed.
\<close>

record Context =
  doneAt :: "nat option"
  ctxError :: string

definition ctx_Err :: "Context \<Rightarrow> nat \<Rightarrow> string option" where
  "ctx_Err ctx t =
     (case doneAt ctx of
        Some d \<Rightarrow> (if d \<le> t then Some (ctxError ctx) else None)
      | None \<Rightarrow> None)"

text \<open>
  One run of \<open>Shutdown\<close>: when the goroutine that calls \<open>Close\<close> sends the result on
  \<open>ch\<close> (or never), the result, the time at which \<open>select\<close> is reached, the case
  that \<open>select\<close> takes when both are ready, and the time from the case taken to the
  re-check of \<open>ctx.Err()\<close>.
\<close>

record ShutdownRun =
  closeReturnsAt :: "nat option"
  closeResult :: "string option"
  selectAt :: nat
  takeCtx :: bool
  recheckAfter :: nat

datatype selectCase = CaseCtxDone nat | CaseCloseResult nat | SelectBlocks

text \<open>
  The \<open>select\<close> statement: the case it takes and the time at which it takes it. A
  case that is ready when \<open>select\<close> is reached is taken then; otherwise \<open>select\<close>
  waits for the first case that becomes ready.
\<close>

definition selectCase :: "Context \<Rightarrow> ShutdownRun \<Rightarrow> selectCase" where
  "selectCase ctx run =
     (let t0 = selectAt run;
          pick = (\<lambda>t. if takeCtx run then CaseCtxDone t else CaseCloseResult t)
      in case (doneAt ctx, closeReturnsAt run) of
           (None, None) \<Rightarrow> SelectBlocks
         | (Some d, None) \<Rightarrow> CaseCtxDone (max t0 d)
         | (None, Some c) \<Rightarrow> CaseCloseResult (max t0 c)
         | (Some d, Some c) \<Rightarrow>
             (if d \<le> t0 \<and> c \<le> t0 then pick t0
              else if d < c then CaseCtxDone (max t0 d)
              else if c < d then CaseCloseResult (max t0 c)
              else pick d))"

text \<open>
  \<open>Shutdown\<close>: \<open>None\<close> when it never returns, otherwise the error it returns
  (\<open>None\<close> for nil).
\<close>

definition Shutdown :: "Context \<Rightarrow> ShutdownRun \<Rightarrow> string option option" where
  "Shutdown ctx run =
     (case selectCase ctx run of
        SelectBlocks \<Rightarrow> None
      | CaseCtxDone t \<Rightarrow>
          (let err1 = ctx_Err ctx t;
               err2 = (case ctx_Err ctx (t + recheckAfter run) of Some e \<Rightarrow> Some e | None \<Rightarrow> err1)
           in Some (map_option (\<lambda>e. ''close server: '' @ e) err2))
      | CaseCloseResult t \<Rightarrow>
          (let err1 = closeResult run;
               err2 = (case ctx_Err ctx (t + recheckAfter run) of Some e \<Rightarrow> Some e | None \<Rightarrow> err1)
           in Some (map_option (\<lambda>e. ''close server: '' @ e) err2)))"

text \<open>The time at which \<open>Shutdown\<close> re-checks the context, when \<open>select\<close> returns.\<close>

definition recheckAt :: "Context \<Rightarrow> ShutdownRun \<Rightarrow> nat option" where
  "recheckAt ctx run =
     (case selectCase ctx run of
        SelectBlocks \<Rightarrow> None
      | CaseCtxDone t \<Rightarrow> Some (t + recheckAfter run)
      | CaseCloseResult t \<Rightarrow> Some (t + recheckAfter run))"

subsection \<open>Non-PTY session runner\<close>

text \<open>
  An \<open>exec.Cmd\<close> as far as the runner goes: the command, and the hook \<open>Cancel\<close>
  that package \<open>os/exec\<close> calls when the context of the command is done (\<open>None\<close> for
  nil; then the end of the context does nothing to a started process). \<open>AsExec\<close> of
  the \<open>pty\<close> package makes the command with \<open>exec.CommandContext\<close>, which sets
  \<open>Cancel\<close> to kill the process.
\<close>

record ExecCmd =
  execCmd :: Cmd
  Cancel :: "string option"

definition AsExec :: "Cmd \<Rightarrow> ExecCmd" where
  "AsExec cmd = \<lparr>execCmd = cmd, Cancel = Some ''kill''\<rparr>"

text \<open>
  What can happen while the runner waits for the process: the context of the session
  ends, the client sends a signal, another goroutine calls \<open>Server.Close\<close>, or the
  process exits and \<open>cmd.Wait\<close> returns the given error. What reaches the process
  from the server: a signal forwarded by \<open>handleSignal\<close>, a call of \<open>cmdCancel\<close>,
  or the \<open>Cancel\<close> hook.
\<close>

datatype waitEvent =
  ContextDone
  | ClientSignal string
  | ServerCloses
  | ProcessExits "runError option"

datatype delivery = HandleSignal string | CmdCancel | CancelHook string

fun cancelledBy :: "closeEffect list \<Rightarrow> nat set" where
  "cancelledBy [] = {}"
| "cancelledBy (CmdCancelProcesses ps # effects) = ps \<union> cancelledBy effects"
| "cancelledBy (effect # effects) = cancelledBy effects"

text \<open>
  The runner between the start of the process \<open>p\<close> and the return of \<open>cmd.Wait\<close>:
  the deliveries to the process, the result of \<open>cmd.Wait\<close> and the state of the
  tracker; \<open>None\<close> when the process does not exit within the given events.
\<close>

fun waitProcess ::
  "ExecCmd \<Rightarrow> nat \<Rightarrow> waitEvent list \<Rightarrow> Server \<Rightarrow>
   (delivery list \<times> runError option \<times> Server) option" where
  "waitProcess cmd p [] s = None"
| "waitProcess cmd p (ProcessExits r # events) s = Some ([], r, s)"
| "waitProcess cmd p (ContextDone # events) s =
     map_option
       (\<lambda>(ds, r, s').
          ((case Cancel cmd of Some sig \<Rightarrow> [CancelHook sig] | None \<Rightarrow> []) @ ds, r, s'))
       (waitProcess cmd p events s)"
| "waitProcess cmd p (ClientSignal sig # events) s =
     map_option (\<lambda>(ds, r, s'). (HandleSignal sig # ds, r, s')) (waitProcess cmd p events s)"
| "waitProcess cmd p (ServerCloses # events) s =
     (case Close_enter s of
        Inl ch \<Rightarrow> waitProcess cmd p events s
      | Inr (s1, effects) \<Rightarrow>
          map_option
            (\<lambda>(ds, r, s'). ((if p \<in> cancelledBy effects then [CmdCancel] else []) @ ds, r, s'))
            (waitProcess cmd p events s1))"

text \<open>
  What happens to the process outside this file: the error of \<open>cmd.StdinPipe\<close>, the
  error of \<open>cmd.Start\<close> or the process it started, the error of \<open>cmdCancel\<close> when
  the process cannot be tracked, and the events while the runner waits.
\<close>

record NonPtyOutcomes =
  stdinPipe :: "string option"
  cmdStart :: "string + nat"
  cmdCancelResult :: "string option"
  waitEvents :: "waitEvent list"

text \<open>
  \<open>startNonPTYSession\<close>, run in the state \<open>s\<close> of the tracker: the deliveries to
  the process, the error returned and the state of the tracker afterwards.
\<close>

definition startNonPTYSession ::
  "Server \<Rightarrow> ExecCmd \<Rightarrow> NonPtyOutcomes \<Rightarrow>
   (delivery list \<times> runError option \<times> Server) option" where
  "startNonPTYSession s cmd out =
     (let cmd1 = cmd\<lparr>Cancel := None\<rparr> in
      case stdinPipe out of
        Some e \<Rightarrow> Some ([], Some (OtherError (''create stdin pipe: '' @ e)), s)
      | None \<Rightarrow>
          (case cmdStart out of
             Inl e \<Rightarrow> Some ([], Some (OtherError (''start: '' @ e)), s)
           | Inr p \<Rightarrow>
               (case trackProcess s p True of
                  (False, s1) \<Rightarrow>
                    Some ([CmdCancel],
                          Some (OtherError
                                  (''failed to track process: '' @
                                   (case cmdCancelResult out of
                                      Some e \<Rightarrow> e
                                    | None \<Rightarrow> ''%!w(<nil>)''))),
                          s1)
                | (True, s1) \<Rightarrow>
                    map_option (\<lambda>(ds, r, s2). (ds, r, snd (trackProcess s2 p False)))
                      (waitProcess cmd1 p (waitEvents out) s1))))"

text \<open>The events up to the exit of the process.\<close>

definition isProcessExits :: "waitEvent \<Rightarrow> bool" where
  "isProcessExits e = (case e of ProcessExits r \<Rightarrow> True | _ \<Rightarrow> False)"

definition beforeExit :: "waitEvent list \<Rightarrow> waitEvent list" where
  "beforeExit events = takeWhile (\<lambda>e. \<not> isProcessExits e) events"

definition exampleNonPtyOutcomes :: NonPtyOutcomes where
  "exampleNonPtyOutcomes =
     \<lparr>stdinPipe = None, cmdStart = Inr 42, cmdCancelResult = None,
      waitEvents = [ContextDone, ClientSignal ''KILL'', ProcessExits (Some (ExitError (- 1)))]\<rparr>"

definition detachedOutcomes :: NonPtyOutcomes where
  "detachedOutcomes =
     \<lparr>stdinPipe = None, cmdStart = Inr 42, cmdCancelResult = None,
      waitEvents = [ContextDone, ServerCloses, ProcessExits (Some (ExitError (- 1)))]\<rparr>"

section \<open>Theorems\<close>

subsection \<open>Session classifier\<close>

lemma HasPrefix_iff: "HasPrefix s p \<longleftrightarrow> (\<exists>r. s = p @ r)"
proof
  assume "HasPrefix s p"
  then have "s = p @ drop (length p) s"
    unfolding HasPrefix_def by (metis append_take_drop_id)
  then show "\<exists>r. s = p @ r" ..
next
  assume "\<exists>r. s = p @ r"
  then show "HasPrefix s p" by (auto simp: HasPrefix_def)
qed

lemma TrimPrefix_append: "TrimPrefix (p @ r) p = r"
  by (simp add: TrimPrefix_def HasPrefix_def)

lemma magic_var_no_eq: "CHR ''='' \<notin> set MagicSessionTypeEnvironmentVariable"
  by (simp add: MagicSessionTypeEnvironmentVariable_def)

lemma envKey_append:
  "CHR ''='' \<notin> set k \<Longrightarrow> envKey (k @ ''='' @ v) = k"
  unfolding envKey_def by (induction k) auto

lemma envValue_append:
  "CHR ''='' \<notin> set k \<Longrightarrow> envValue (k @ ''='' @ v) = v"
  unfolding envValue_def by (induction k) auto

lemma envKey_prefix: "HasPrefix kv (envKey kv)"
  unfolding HasPrefix_iff envKey_def
  by (metis takeWhile_dropWhile_id)

lemma scan_lookalike_free:
  assumes "\<forall>kv\<in>set env. HasPrefix kv MagicSessionTypeEnvironmentVariable \<longrightarrow>
             HasPrefix kv (MagicSessionTypeEnvironmentVariable @ ''='')"
  shows "scanMagicSessionType raw env =
     (case filter (\<lambda>kv. envKey kv = MagicSessionTypeEnvironmentVariable) env of
        [] \<Rightarrow> raw | x # xs \<Rightarrow> envValue (last (x # xs)))"
  using assms
proof (induction env arbitrary: raw)
  case Nil
  then show ?case by simp
next
  case (Cons kv env)
  let ?V = MagicSessionTypeEnvironmentVariable
  show ?case
  proof (cases "HasPrefix kv ?V")
    case False
    then have "envKey kv \<noteq> ?V" using envKey_prefix [of kv] by auto
    with False Cons show ?thesis by simp
  next
    case True
    with Cons.prems have "HasPrefix kv (?V @ ''='')" by simp
    then obtain v where kv: "kv = ?V @ ''='' @ v" by (auto simp: HasPrefix_iff)
    have k: "envKey kv = ?V" and e: "envValue kv = v"
      unfolding kv using magic_var_no_eq by (rule envKey_append, rule envValue_append)
    have t: "TrimPrefix kv (?V @ ''='') = v"
      unfolding kv using TrimPrefix_append [of "?V @ ''=''" v] by simp
    have ih: "scanMagicSessionType v env =
      (case filter (\<lambda>kv. envKey kv = ?V) env of [] \<Rightarrow> v | x # xs \<Rightarrow> envValue (last (x # xs)))"
      using Cons by simp
    show ?thesis using True k e t ih
      by (simp split: list.splits)
  qed
qed

lemma envKey_eq_iff:
  assumes "HasPrefix kv MagicSessionTypeEnvironmentVariable \<longrightarrow>
             HasPrefix kv (MagicSessionTypeEnvironmentVariable @ ''='')"
  shows "HasPrefix kv (MagicSessionTypeEnvironmentVariable @ ''='') \<longleftrightarrow>
           envKey kv = MagicSessionTypeEnvironmentVariable"
proof
  assume "HasPrefix kv (MagicSessionTypeEnvironmentVariable @ ''='')"
  then obtain v where "kv = MagicSessionTypeEnvironmentVariable @ ''='' @ v"
    by (auto simp: HasPrefix_iff)
  then show "envKey kv = MagicSessionTypeEnvironmentVariable"
    using envKey_append [OF magic_var_no_eq] by simp
next
  assume "envKey kv = MagicSessionTypeEnvironmentVariable"
  then have "HasPrefix kv MagicSessionTypeEnvironmentVariable"
    using envKey_prefix [of kv] by simp
  with assms show "HasPrefix kv (MagicSessionTypeEnvironmentVariable @ ''='')" by simp
qed

lemma ToLower_ASCII: "isASCII s \<Longrightarrow> ToLower mapLower s = map lower_byte s"
  by (simp add: ToLower_def)

text \<open>
  Claim C4, amended. In an environment in which every entry that starts with
  \<open>CODER_SSH_SESSION_TYPE\<close> starts with \<open>CODER_SSH_SESSION_TYPE=\<close>,
  \<open>extractMagicSessionType\<close> takes the value of the last entry whose key is
  \<open>CODER_SSH_SESSION_TYPE\<close> (the empty string when there is none) as the raw type,
  classifies what \<open>strings.ToLower\<close> returns for it (empty or \<open>ssh\<close> is ssh,
  \<open>vscode\<close> is vscode, \<open>jetbrains\<close> is jetbrains, anything else is unknown) and
  returns the environment without the entries of that key, in their order. This holds
  whatever the Unicode case tables are: a value of ASCII bytes is lower-cased byte by
  byte, any other value by the tables.
\<close>

theorem extractMagicSessionType_last_value:
  assumes "\<forall>kv\<in>set env. HasPrefix kv MagicSessionTypeEnvironmentVariable \<longrightarrow>
             HasPrefix kv (MagicSessionTypeEnvironmentVariable @ ''='')"
  shows "extractMagicSessionType mapLower env =
     (let raw = lastValueOf MagicSessionTypeEnvironmentVariable env;
          v = (if isASCII raw then map lower_byte raw else mapLower raw)
      in (if v = '''' \<or> v = ''ssh'' then MagicSessionTypeSSH
          else if v = ''vscode'' then MagicSessionTypeVSCode
          else if v = ''jetbrains'' then MagicSessionTypeJetBrains
          else MagicSessionTypeUnknown,
          raw,
          filter (\<lambda>kv. envKey kv \<noteq> MagicSessionTypeEnvironmentVariable) env))"
proof -
  let ?V = MagicSessionTypeEnvironmentVariable
  have raw: "scanMagicSessionType '''' env = lastValueOf ?V env"
    unfolding lastValueOf_def using scan_lookalike_free [OF assms] .
  have "filter (\<lambda>kv. \<not> HasPrefix kv (?V @ ''='')) env = filter (\<lambda>kv. envKey kv \<noteq> ?V) env"
    using assms by (intro filter_cong refl) (simp add: envKey_eq_iff)
  then have del: "DeleteFunc env (\<lambda>kv. HasPrefix kv (?V @ ''='')) = filter (\<lambda>kv. envKey kv \<noteq> ?V) env"
    by (simp add: DeleteFunc_def)
  show ?thesis
    unfolding extractMagicSessionType_def raw del
    by (simp add: Let_def switchMagicSessionType_def ToLower_def)
qed

text \<open>
  Two environments: one of ASCII values, and one whose value holds U+0130 (the capital I
  with a dot, which \<open>unicode.ToLower\<close> maps to \<open>i\<close>), with a stand-in for the
  tables that agrees with them on this value.
\<close>

theorem extractMagicSessionType_last_value_witness:
  "extractMagicSessionType (\<lambda>s. s)
     [''TERM=xterm'', ''CODER_SSH_SESSION_TYPE=JetBrains'', ''CODER_SSH_SESSION_TYPE=VSCode''] =
   (MagicSessionTypeVSCode, ''VSCode'', [''TERM=xterm'']) \<and>
   extractMagicSessionType (\<lambda>s. ''jetbrains'')
     [''CODER_SSH_SESSION_TYPE=JETBRA'' @ [CHR 0xC4, CHR 0xB0] @ ''NS''] =
   (MagicSessionTypeJetBrains, ''JETBRA'' @ [CHR 0xC4, CHR 0xB0] @ ''NS'', [])"
proof -
  let ?env = "[''TERM=xterm'', ''CODER_SSH_SESSION_TYPE=JetBrains'', ''CODER_SSH_SESSION_TYPE=VSCode'']"
  let ?env2 = "[''CODER_SSH_SESSION_TYPE=JETBRA'' @ [CHR 0xC4, CHR 0xB0] @ ''NS'']"
  have h: "\<forall>kv\<in>set ?env. HasPrefix kv MagicSessionTypeEnvironmentVariable \<longrightarrow>
             HasPrefix kv (MagicSessionTypeEnvironmentVariable @ ''='')"
    by (simp add: HasPrefix_def MagicSessionTypeEnvironmentVariable_def)
  have raw: "lastValueOf MagicSessionTypeEnvironmentVariable ?env = ''VSCode''"
    by code_simp
  have asc: "isASCII ''VSCode''"
    by code_simp
  have low: "map lower_byte ''VSCode'' = ''vscode''"
    by code_simp
  have rest: "filter (\<lambda>kv. envKey kv \<noteq> MagicSessionTypeEnvironmentVariable) ?env = [''TERM=xterm'']"
    by code_simp
  have 1: "extractMagicSessionType (\<lambda>s. s) ?env = (MagicSessionTypeVSCode, ''VSCode'', [''TERM=xterm''])"
    unfolding extractMagicSessionType_last_value [OF h] Let_def raw rest
    using asc low by simp
  have h2: "\<forall>kv\<in>set ?env2. HasPrefix kv MagicSessionTypeEnvironmentVariable \<longrightarrow>
             HasPrefix kv (MagicSessionTypeEnvironmentVariable @ ''='')"
    by (simp add: HasPrefix_def MagicSessionTypeEnvironmentVariable_def)
  have raw2: "lastValueOf MagicSessionTypeEnvironmentVariable ?env2 =
      ''JETBRA'' @ [CHR 0xC4, CHR 0xB0] @ ''NS''"
    by code_simp
  have asc2: "\<not> isASCII (''JETBRA'' @ [CHR 0xC4, CHR 0xB0] @ ''NS'')"
    by code_simp
  have rest2: "filter (\<lambda>kv. envKey kv \<noteq> MagicSessionTypeEnvironmentVariable) ?env2 = []"
    by code_simp
  have 2: "extractMagicSessionType (\<lambda>s. ''jetbrains'') ?env2 =
      (MagicSessionTypeJetBrains, ''JETBRA'' @ [CHR 0xC4, CHR 0xB0] @ ''NS'', [])"
    unfolding extractMagicSessionType_last_value [OF h2] Let_def raw2 rest2
    using asc2 by simp
  show ?thesis using 1 2 by (rule conjI)
qed

text \<open>
  The value \<open>ssh\<close> is not empty, \<open>vscode\<close> or \<open>jetbrains\<close>, and it is
  classified as ssh by the \<open>switch\<close>, not as unknown. The value is ASCII, so the
  Unicode tables are not consulted.
\<close>

theorem extractMagicSessionType_ssh_value_counterexample:
  "extractMagicSessionType (\<lambda>s. s) [''CODER_SSH_SESSION_TYPE=ssh''] =
     (MagicSessionTypeSSH, ''ssh'', []) \<and>
   specMagicSessionType (\<lambda>s. s) [''CODER_SSH_SESSION_TYPE=ssh''] = MagicSessionTypeUnknown"
  by (simp add: extractMagicSessionType_def specMagicSessionType_def HasPrefix_def TrimPrefix_def
      switchMagicSessionType_def DeleteFunc_def lastValueOf_def envKey_def envValue_def
      ToLower_def isASCII_def lower_byte_def MagicSessionTypeEnvironmentVariable_def)

lemma extractMagicSessionType_ssh_value:
  "extractMagicSessionType mapLower [''CODER_SSH_SESSION_TYPE=ssh''] =
     (MagicSessionTypeSSH, ''ssh'', []) \<and>
   specMagicSessionType mapLower [''CODER_SSH_SESSION_TYPE=ssh''] = MagicSessionTypeUnknown"
  by (simp add: extractMagicSessionType_def specMagicSessionType_def HasPrefix_def TrimPrefix_def
      switchMagicSessionType_def DeleteFunc_def lastValueOf_def envKey_def envValue_def
      ToLower_def isASCII_def lower_byte_def MagicSessionTypeEnvironmentVariable_def)

text \<open>
  The loop tests the prefix \<open>CODER_SSH_SESSION_TYPE\<close> without the \<open>=\<close> sign: an
  entry of a longer key overrides the raw type with the whole entry, and stays in the
  environment (the deletion tests the prefix with \<open>=\<close>).
\<close>

lemma extractMagicSessionType_lookalike_key:
  "extractMagicSessionType (\<lambda>s. s)
     [''CODER_SSH_SESSION_TYPE=vscode'', ''CODER_SSH_SESSION_TYPE_DEBUG=1''] =
     (MagicSessionTypeUnknown, ''CODER_SSH_SESSION_TYPE_DEBUG=1'', [''CODER_SSH_SESSION_TYPE_DEBUG=1''])"
  by code_simp

subsection \<open>Session dispatcher\<close>

lemma firstExitCode_append:
  "firstExitCode (xs @ ys) = (case firstExitCode xs of Some c \<Rightarrow> Some c | None \<Rightarrow> firstExitCode ys)"
  by (induction xs rule: firstExitCode.induct) auto

lemma tracked_init_Some:
  "tracked pre [] \<lparr>trace = pre, scr = Some \<lparr>exitOnce = False, code = 0\<rparr>, reason = r\<rparr>"
  by (simp add: tracked_def)

lemma tracked_init_None:
  "tracked pre [] \<lparr>trace = pre, scr = None, reason = r\<rparr>"
  by (simp add: tracked_def)

lemma tracked_Exit:
  "tracked pre mid st \<Longrightarrow> tracked pre (mid @ [SessionExit c]) (session_Exit c st)"
  by (auto simp: tracked_def session_Exit_def track_def firstExitCode_append
      isReportConnection_def isDisconnected_def split: option.splits if_splits)

lemma tracked_Close:
  "tracked pre mid st \<Longrightarrow> tracked pre (mid @ [SessionClose]) (session_Close st)"
  by (auto simp: tracked_def session_Close_def track_def firstExitCode_append
      isReportConnection_def isDisconnected_def split: option.splits if_splits)

lemma tracked_Write:
  "tracked pre mid st \<Longrightarrow> tracked pre (mid @ [SessionWrite b]) (session_Write b st)"
  by (auto simp: tracked_def session_Write_def firstExitCode_append
      isReportConnection_def isDisconnected_def split: option.splits if_splits)

lemma tracked_closeCause:
  "tracked pre mid st \<Longrightarrow> tracked pre mid (closeCause r st)"
  by (auto simp: tracked_def closeCause_def split: option.splits if_splits)

lemma tracked_other:
  "tracked pre mid st \<Longrightarrow> firstExitCode [e] = None \<Longrightarrow> \<not> isReportConnection e \<Longrightarrow> \<not> isDisconnected e
     \<Longrightarrow> tracked pre (mid @ [e]) (st\<lparr>trace := trace st @ [e]\<rparr>)"
  by (auto simp: tracked_def firstExitCode_append split: option.splits if_splits)

lemma scr_None_iff [simp]:
  "scr (session_Exit c st) = None \<longleftrightarrow> scr st = None"
  "scr (session_Close st) = None \<longleftrightarrow> scr st = None"
  "scr (session_Write b st) = None \<longleftrightarrow> scr st = None"
  "scr (closeCause r st) = None \<longleftrightarrow> scr st = None"
  by (auto simp: session_Exit_def session_Close_def session_Write_def closeCause_def split: option.splits)

lemma sftpHandler_tracked:
  assumes "tracked pre mid st"
  shows "\<exists>mid'. tracked pre mid' (fst (sftpHandler out st)) \<and>
           (scr (fst (sftpHandler out st)) = None \<longleftrightarrow> scr st = None)"
proof (cases "sftpServer out")
  case (NewServerFails e)
  with assms show ?thesis by (auto simp: sftpHandler_def)
next
  case (Serves r)
  let ?st1 = "st\<lparr>trace := trace st @ [SftpServe]\<rparr>"
  have 1: "tracked pre (mid @ [SftpServe]) ?st1"
    using assms by (intro tracked_other) (simp_all add: isReportConnection_def isDisconnected_def)
  have "tracked pre (mid @ [SftpServe] @ [SessionExit c] @ [SessionClose]) (session_Close (session_Exit c ?st1))" for c
    using tracked_Close [OF tracked_Exit [OF 1]] by simp
  with Serves show ?thesis
    by (cases r) (auto simp: sftpHandler_def Let_def)
qed

lemma runSession_tracked:
  assumes "tracked pre mid st"
  shows "\<exists>mid'. tracked pre mid' (runSession out env mt c u st) \<and>
           (scr (runSession out env mt c u st) = None \<longleftrightarrow> scr st = None)"
proof -
  let ?e = "SessionStart env mt c u"
  let ?st1 = "st\<lparr>trace := trace st @ [?e]\<rparr>"
  have 1: "tracked pre (mid @ [?e]) ?st1"
    using assms by (intro tracked_other) (simp_all add: isReportConnection_def isDisconnected_def)
  have 2: "tracked pre ((mid @ [?e]) @ [SessionExit k]) (session_Exit k (closeCause r ?st1))" for k r
    by (intro tracked_Exit tracked_closeCause 1)
  have 3: "tracked pre ((mid @ [?e]) @ [SessionExit k]) (session_Exit k ?st1)" for k
    by (intro tracked_Exit 1)
  have s: "scr ?st1 = None \<longleftrightarrow> scr st = None" by simp
  show ?thesis
  proof (cases "sessionStart out")
    case None
    then show ?thesis using 3 [of 0] s by (auto simp: runSession_def Let_def simp del: append_assoc)
  next
    case (Some err)
    then show ?thesis using 2 s
      by (cases err) (auto simp: runSession_def Let_def simp del: append_assoc)
  qed
qed

lemma trace_ops [simp]:
  "trace (session_Exit c st) = trace st @ [SessionExit c]"
  "trace (session_Close st) = trace st @ [SessionClose]"
  "trace (session_Write b st) = trace st @ [SessionWrite b]"
  "trace (closeCause r st) = trace st"
  by (auto simp: session_Exit_def session_Close_def session_Write_def closeCause_def
      split: option.splits)

lemma dispatch_tracked:
  assumes "tracked pre [] st"
  shows "\<exists>mid. tracked pre mid (dispatch config out session env mt st) \<and>
           (scr (dispatch config out session env mt st) = None \<longleftrightarrow> scr st = None)"
proof (cases "fileTransferBlocked config session")
  case True
  have w: "tracked pre ([] @ [SessionWrite b]) (session_Write b st)" for b
    by (intro tracked_Write assms)
  show ?thesis
  proof (cases "Subsystem session = []")
    case empty: True
    have "tracked pre (([] @ [SessionWrite b]) @ [SessionExit k])
            (session_Exit k (closeCause r (session_Write b st)))" for b k r
      by (intro tracked_Exit tracked_closeCause w)
    with True empty show ?thesis by (auto simp: dispatch_def)
  next
    case False
    have "tracked pre ([] @ [SessionExit k]) (session_Exit k (closeCause r st))" for k r
      by (intro tracked_Exit tracked_closeCause assms)
    with True False show ?thesis by (auto simp: dispatch_def)
  qed
next
  case False
  obtain container containerUser env1 where ci: "extractContainerInfo env = (container, containerUser, env1)"
    by (cases "extractContainerInfo env") auto
  have ex: "\<exists>mid. tracked pre mid (session_Exit k (closeCause r st)) \<and>
             (scr (session_Exit k (closeCause r st)) = None \<longleftrightarrow> scr st = None)" for k r
    using tracked_Exit [OF tracked_closeCause [OF assms]] by auto
  show ?thesis
  proof (cases "Subsystem session = []")
    case empty: True
    show ?thesis
    proof (cases "X11 session")
      case None
      with False empty ci show ?thesis
        using runSession_tracked [OF assms] by (simp add: dispatch_def)
    next
      case (Some screenNumber)
      obtain display handled where x: "x11Handler out = (display, handled)"
        by (cases "x11Handler out") auto
      let ?st1 = "st\<lparr>trace := trace st @ [X11Handler]\<rparr>"
      have 1: "tracked pre ([] @ [X11Handler]) ?st1"
        using assms by (intro tracked_other) (simp_all add: isReportConnection_def isDisconnected_def)
      have s: "scr ?st1 = None \<longleftrightarrow> scr st = None" by simp
      show ?thesis
      proof (cases handled)
        case True
        with False empty ci Some x show ?thesis
          using runSession_tracked [OF 1] s by (simp add: dispatch_def)
      next
        case nh: False
        have "tracked pre (([] @ [X11Handler]) @ [SessionExit k]) (session_Exit k (closeCause r ?st1))" for k r
          by (intro tracked_Exit tracked_closeCause 1)
        with nh False empty ci Some x s show ?thesis
          by (auto simp: dispatch_def)
      qed
    qed
  next
    case nonempty: False
    show ?thesis
    proof (cases "Subsystem session = ''sftp''")
      case True
      show ?thesis
      proof (cases "ExperimentalContainers config \<and> container \<noteq> []")
        case True
        with False nonempty ci \<open>Subsystem session = ''sftp''\<close> show ?thesis
          using ex by (simp add: dispatch_def)
      next
        case nc: False
        obtain st1 err where sf: "sftpHandler out st = (st1, err)"
          by (cases "sftpHandler out st") auto
        from sftpHandler_tracked [OF assms, of out] sf
        obtain mid' where m: "tracked pre mid' st1" "scr st1 = None \<longleftrightarrow> scr st = None" by auto
        have "tracked pre mid' (closeCause r st1)" for r by (intro tracked_closeCause m)
        with m nc False nonempty ci True sf show ?thesis
          by (cases err) (auto simp: dispatch_def)
      qed
    next
      case ns: False
      with False nonempty ci show ?thesis
        using ex by (simp add: dispatch_def)
    qed
  qed
qed

lemma fst_trackSession_add: "fst (trackSession s ss True) \<longleftrightarrow> closing s = None"
  by (simp add: trackSession_def)

lemma sessionCall_scr:
  assumes "scr st = Some t"
  shows "scr (fold sessionCall evs st) =
     Some (if exitOnce t then t
           else (case firstExitCode evs of
                   Some c \<Rightarrow> \<lparr>exitOnce = True, code = c\<rparr>
                 | None \<Rightarrow> t))"
  using assms
proof (induction evs arbitrary: st t)
  case Nil
  then show ?case by simp
next
  case (Cons e evs)
  show ?case
  proof (cases e)
    case (SessionExit c)
    have "scr (sessionCall e st) = Some (track c t)"
      using Cons.prems SessionExit by (simp add: sessionCall_def session_Exit_def)
    from Cons.IH [OF this] SessionExit show ?thesis
      by (simp add: track_def)
  next
    case SessionClose
    have "scr (sessionCall e st) = Some (track 1 t)"
      using Cons.prems SessionClose by (simp add: sessionCall_def session_Close_def)
    from Cons.IH [OF this] SessionClose show ?thesis
      by (simp add: track_def)
  next
    case (SessionWrite b)
    have "scr (sessionCall e st) = Some t"
      using Cons.prems SessionWrite by (simp add: sessionCall_def session_Write_def)
    from Cons.IH [OF this] SessionWrite show ?thesis by simp
  next
    case (ReportConnection mt a)
    have "scr (sessionCall e st) = Some t"
      using Cons.prems ReportConnection by (simp add: sessionCall_def)
    from Cons.IH [OF this] ReportConnection show ?thesis by simp
  next
    case (Disconnected k r)
    have "scr (sessionCall e st) = Some t"
      using Cons.prems Disconnected by (simp add: sessionCall_def)
    from Cons.IH [OF this] Disconnected show ?thesis by simp
  next
    case X11Handler
    have "scr (sessionCall e st) = Some t"
      using Cons.prems X11Handler by (simp add: sessionCall_def)
    from Cons.IH [OF this] X11Handler show ?thesis by simp
  next
    case SftpServe
    have "scr (sessionCall e st) = Some t"
      using Cons.prems SftpServe by (simp add: sessionCall_def)
    from Cons.IH [OF this] SftpServe show ?thesis by simp
  next
    case (SessionStart env mt c u)
    have "scr (sessionCall e st) = Some t"
      using Cons.prems SessionStart by (simp add: sessionCall_def)
    from Cons.IH [OF this] SessionStart show ?thesis by simp
  qed
qed

lemma wrappedSession_exitCode:
  "map_option exitCode (scr (fold sessionCall evs wrappedSession)) =
     Some (case firstExitCode evs of Some c \<Rightarrow> c | None \<Rightarrow> 0)"
proof -
  have "scr wrappedSession = Some \<lparr>exitOnce = False, code = 0\<rparr>"
    by (simp add: wrappedSession_def)
  from sessionCall_scr [OF this, of evs] show ?thesis
    by (simp add: exitCode_def split: option.splits)
qed

text \<open>
  Claim C1, amended. For every handled session, \<open>ReportConnection\<close> is invoked exactly
  once, before every other call, unless the session was admitted and is of type
  jetbrains, in which case neither \<open>ReportConnection\<close> nor a \<open>disconnected\<close>
  callback is invoked; a session that was not admitted is reported too. The callback
  that \<open>ReportConnection\<close> returned is invoked exactly once, after all the calls of
  the handler on the session, and it carries the first code passed to \<open>Exit\<close>, or 1
  if \<open>Close\<close> came before any \<open>Exit\<close>, or 0 if neither was called. These are the
  codes that the close tracker holds: after any sequence of calls on a session wrapped
  in a fresh tracker, \<open>exitCode\<close> is the first code passed to \<open>Exit\<close>, or 1 if
  \<open>Close\<close> came before any \<open>Exit\<close>, or 0 if neither was called.
\<close>

theorem sessionHandler_reports:
  "(let tr = fst (sessionHandler config out s session);
        magicType = fst (extractMagicSessionType (mapToLower out) (Environ session));
        admitted = fst (trackSession s (ident session) True)
    in if admitted \<and> magicType = MagicSessionTypeJetBrains
       then filter isReportConnection tr = [] \<and> filter isDisconnected tr = []
       else (\<exists>mid c r.
               tr = ReportConnection magicType (RemoteAddr session) # mid @ [Disconnected c r] \<and>
               list_all (\<lambda>e. \<not> isReportConnection e \<and> \<not> isDisconnected e) mid \<and>
               c = (case firstExitCode mid of Some c' \<Rightarrow> c' | None \<Rightarrow> 0))) \<and>
   map_option exitCode (scr (fold sessionCall evs wrappedSession)) =
     Some (case firstExitCode evs of Some c' \<Rightarrow> c' | None \<Rightarrow> 0)"
proof (rule conjI)
  obtain magicType magicTypeRaw env
    where em: "extractMagicSessionType (mapToLower out) (Environ session) =
                 (magicType, magicTypeRaw, env)"
    by (cases "extractMagicSessionType (mapToLower out) (Environ session)") auto
  show "let tr = fst (sessionHandler config out s session);
        magicType = fst (extractMagicSessionType (mapToLower out) (Environ session));
        admitted = fst (trackSession s (ident session) True)
    in if admitted \<and> magicType = MagicSessionTypeJetBrains
       then filter isReportConnection tr = [] \<and> filter isDisconnected tr = []
       else (\<exists>mid c r.
               tr = ReportConnection magicType (RemoteAddr session) # mid @ [Disconnected c r] \<and>
               list_all (\<lambda>e. \<not> isReportConnection e \<and> \<not> isDisconnected e) mid \<and>
               c = (case firstExitCode mid of Some c' \<Rightarrow> c' | None \<Rightarrow> 0))"
  proof (cases "closing s")
    case (Some ch)
    have "fst (sessionHandler config out s session) =
            ReportConnection magicType (RemoteAddr session) # [SessionClose] @
            [Disconnected 1 ''unable to accept new session, server is closing'']"
      using Some em by (simp add: sessionHandler_def trackSession_def)
    moreover have "list_all (\<lambda>e. \<not> isReportConnection e \<and> \<not> isDisconnected e) [SessionClose]"
      by (simp add: isReportConnection_def isDisconnected_def)
    moreover have "(1::int) = (case firstExitCode [SessionClose] of Some c' \<Rightarrow> c' | None \<Rightarrow> 0)"
      by simp
    ultimately have "\<exists>mid c r.
        fst (sessionHandler config out s session) =
          ReportConnection magicType (RemoteAddr session) # mid @ [Disconnected c r] \<and>
        list_all (\<lambda>e. \<not> isReportConnection e \<and> \<not> isDisconnected e) mid \<and>
        c = (case firstExitCode mid of Some c' \<Rightarrow> c' | None \<Rightarrow> 0)"
      by blast
    then show ?thesis
      using Some em unfolding Let_def fst_trackSession_add by simp
  next
    case None
    show ?thesis
    proof (cases "magicType = MagicSessionTypeJetBrains")
      case True
      let ?st0 = "\<lparr>trace = [], scr = None, reason = []\<rparr>"
      let ?st1 = "dispatch config out session env magicType ?st0"
      have "\<exists>mid. tracked [] mid ?st1 \<and> (scr ?st1 = None \<longleftrightarrow> scr ?st0 = None)"
        by (rule dispatch_tracked [OF tracked_init_None])
      then obtain mid where m: "tracked [] mid ?st1" "scr ?st1 = None" by auto
      have tr: "fst (sessionHandler config out s session) = trace ?st1"
        using None em True m by (simp add: sessionHandler_def trackSession_def Let_def split: prod.splits)
      have "list_all (\<lambda>e. \<not> isReportConnection e \<and> \<not> isDisconnected e) (trace ?st1)"
        using m by (simp add: tracked_def)
      then have "filter isReportConnection (trace ?st1) = [] \<and> filter isDisconnected (trace ?st1) = []"
        by (auto simp: list_all_iff filter_empty_conv)
      then show ?thesis
        using None em True tr unfolding Let_def fst_trackSession_add by simp
    next
      case False
      let ?pre = "[ReportConnection magicType (RemoteAddr session)]"
      let ?st0 = "\<lparr>trace = ?pre, scr = Some \<lparr>exitOnce = False, code = 0\<rparr>, reason = []\<rparr>"
      let ?st1 = "dispatch config out session env magicType ?st0"
      have "\<exists>mid. tracked ?pre mid ?st1 \<and> (scr ?st1 = None \<longleftrightarrow> scr ?st0 = None)"
        by (rule dispatch_tracked [OF tracked_init_Some])
      then obtain mid t where m: "tracked ?pre mid ?st1" "scr ?st1 = Some t" by auto
      have tr: "fst (sessionHandler config out s session) =
                  ReportConnection magicType (RemoteAddr session) # mid @
                  [Disconnected (exitCode t) (reason ?st1)]"
        using None em False m
        by (simp add: sessionHandler_def trackSession_def Let_def tracked_def split: prod.splits)
      have la: "list_all (\<lambda>e. \<not> isReportConnection e \<and> \<not> isDisconnected e) mid"
        using m by (simp add: tracked_def)
      have fe: "exitCode t = (case firstExitCode mid of Some c' \<Rightarrow> c' | None \<Rightarrow> 0)"
        using m by (auto simp: tracked_def exitCode_def split: if_splits)
      have "\<exists>mid c r.
          fst (sessionHandler config out s session) =
            ReportConnection magicType (RemoteAddr session) # mid @ [Disconnected c r] \<and>
          list_all (\<lambda>e. \<not> isReportConnection e \<and> \<not> isDisconnected e) mid \<and>
          c = (case firstExitCode mid of Some c' \<Rightarrow> c' | None \<Rightarrow> 0)"
        using tr la fe by blast
      then show ?thesis
        using None em False unfolding Let_def fst_trackSession_add by simp
    qed
  qed
next
  show "map_option exitCode (scr (fold sessionCall evs wrappedSession)) =
     Some (case firstExitCode evs of Some c' \<Rightarrow> c' | None \<Rightarrow> 0)"
    by (rule wrappedSession_exitCode)
qed

lemma isX_simps [simp]:
  "isSessionStart (SessionStart env mt c u)" "\<not> isSessionStart (SessionExit k)"
  "\<not> isSessionStart (SessionWrite b)" "\<not> isSessionStart SessionClose"
  "\<not> isSessionStart X11Handler" "\<not> isSessionStart SftpServe"
  "\<not> isSessionStart (ReportConnection mt a)" "\<not> isSessionStart (Disconnected k r)"
  "isSessionExit (SessionExit k)" "\<not> isSessionExit (SessionStart env mt c u)"
  "\<not> isSessionExit (SessionWrite b)" "\<not> isSessionExit SessionClose"
  "\<not> isSessionExit X11Handler" "\<not> isSessionExit SftpServe"
  "\<not> isSessionExit (ReportConnection mt a)" "\<not> isSessionExit (Disconnected k r)"
  by (simp_all add: isSessionStart_def isSessionExit_def)

lemma runSession_trace:
  "trace (runSession out env mt c u st) =
     trace st @ [SessionStart env mt c u,
       SessionExit (case sessionStart out of None \<Rightarrow> 0
                    | Some (ExitError k) \<Rightarrow> (if k = - 1 then 255 else k)
                    | Some (OtherError msg) \<Rightarrow> 229)]"
  by (simp add: runSession_def Let_def MagicSessionErrorCode_def
      split: option.splits runError.splits)

lemma sftpHandler_trace:
  "filter isSessionStart (trace (fst (sftpHandler out st))) = filter isSessionStart (trace st)"
  by (simp add: sftpHandler_def Let_def split: sftpOutcome.splits serveError.splits)

lemma dispatch_exit_code:
  assumes "filter isSessionStart (trace st) = []" "filter isSessionExit (trace st) = []"
    and "filter isSessionStart (trace (dispatch config out session env mt st)) \<noteq> []"
  shows "filter isSessionExit (trace (dispatch config out session env mt st)) =
     [SessionExit (case sessionStart out of None \<Rightarrow> 0
                   | Some (ExitError k) \<Rightarrow> (if k = - 1 then 255 else k)
                   | Some (OtherError msg) \<Rightarrow> 229)]"
proof -
  obtain container containerUser env1 where ci: "extractContainerInfo env = (container, containerUser, env1)"
    by (cases "extractContainerInfo env") auto
  obtain display handled where x: "x11Handler out = (display, handled)"
    by (cases "x11Handler out") auto
  obtain st1 err where sf: "sftpHandler out st = (st1, err)"
    by (cases "sftpHandler out st") auto
  have sf': "filter isSessionStart (trace st1) = []"
    using sftpHandler_trace [of out st] sf assms(1) by simp
  show ?thesis
    using assms ci x sf sf'
    by (auto simp: dispatch_def runSession_trace Let_def split: if_splits option.splits)
qed

lemma dispatch_blocked:
  assumes "fileTransferBlocked config session"
  shows "trace (dispatch config out session env mt st) =
     trace st @ (if Subsystem session = []
                 then [SessionWrite (CHR 0x02 # ''File transfer has been disabled.'' @ [CHR 0x0A])]
                 else []) @ [SessionExit 65]"
  using assms
  by (simp add: dispatch_def BlockedFileTransferErrorCode_def BlockedFileTransferErrorMessage_def)

lemma sessionHandler_admitted_trace:
  assumes "closing s = None"
  shows "fst (sessionHandler config out s session) =
     (let (magicType, magicTypeRaw, env) = extractMagicSessionType (mapToLower out) (Environ session);
          st0 = (if magicType \<noteq> MagicSessionTypeJetBrains
                 then \<lparr>trace = [ReportConnection magicType (RemoteAddr session)],
                       scr = Some \<lparr>exitOnce = False, code = 0\<rparr>, reason = []\<rparr>
                 else \<lparr>trace = [], scr = None, reason = []\<rparr>);
          st1 = dispatch config out session env magicType st0
      in case scr st1 of
           Some t \<Rightarrow> trace st1 @ [Disconnected (exitCode t) (reason st1)]
         | None \<Rightarrow> trace st1)"
  using assms
  by (simp add: sessionHandler_def trackSession_def Let_def split: prod.splits)

text \<open>
  Claim C3. For every session that the handler routes to \<open>sessionStart\<close>, the handler
  calls \<open>Exit\<close> on the session exactly once, with the exit code \<open>c\<close> when
  \<open>sessionStart\<close> returns an \<open>exec.ExitError\<close> of code \<open>c\<close> other than -1, with
  255 when that code is -1, with 229 when it returns any other error, and with 0 when it
  returns nil.
\<close>

theorem sessionHandler_exit_code:
  assumes "filter isSessionStart (fst (sessionHandler config out s session)) \<noteq> []"
  shows "filter isSessionExit (fst (sessionHandler config out s session)) =
     [SessionExit (case sessionStart out of None \<Rightarrow> 0
                   | Some (ExitError c) \<Rightarrow> (if c = - 1 then 255 else c)
                   | Some (OtherError msg) \<Rightarrow> 229)]"
proof (cases "closing s")
  case (Some ch)
  then have "fst (sessionHandler config out s session) =
     [ReportConnection (fst (extractMagicSessionType (mapToLower out) (Environ session))) (RemoteAddr session),
      SessionClose, Disconnected 1 ''unable to accept new session, server is closing'']"
    by (simp add: sessionHandler_def trackSession_def split: prod.splits)
  with assms show ?thesis by simp
next
  case None
  obtain magicType magicTypeRaw env
    where em: "extractMagicSessionType (mapToLower out) (Environ session) = (magicType, magicTypeRaw, env)"
    by (cases "extractMagicSessionType (mapToLower out) (Environ session)") auto
  define st0 where "st0 = (if magicType \<noteq> MagicSessionTypeJetBrains
                 then \<lparr>trace = [ReportConnection magicType (RemoteAddr session)],
                       scr = Some \<lparr>exitOnce = False, code = 0\<rparr>, reason = []\<rparr>
                 else \<lparr>trace = [], scr = None, reason = []\<rparr>)"
  define st1 where "st1 = dispatch config out session env magicType st0"
  have tr: "fst (sessionHandler config out s session) =
      (case scr st1 of Some t \<Rightarrow> trace st1 @ [Disconnected (exitCode t) (reason st1)]
       | None \<Rightarrow> trace st1)"
    unfolding sessionHandler_admitted_trace [OF None] em st0_def st1_def by (simp add: Let_def)
  have 0: "filter isSessionStart (trace st0) = []" "filter isSessionExit (trace st0) = []"
    by (simp_all add: st0_def)
  have 1: "filter isSessionStart (trace st1) \<noteq> []"
    using assms unfolding tr by (simp split: option.splits)
  have "filter isSessionExit (trace st1) =
     [SessionExit (case sessionStart out of None \<Rightarrow> 0
                   | Some (ExitError c) \<Rightarrow> (if c = - 1 then 255 else c)
                   | Some (OtherError msg) \<Rightarrow> 229)]"
    using dispatch_exit_code [OF 0] 1 unfolding st1_def by simp
  then show ?thesis unfolding tr by (simp split: option.splits)
qed

lemma fileTransferBlocked_iff:
  "fileTransferBlocked config session \<longleftrightarrow>
     BlockFileTransfer config \<and>
     (Subsystem session = ''sftp'' \<or>
      (\<exists>c rest. Command session = c # rest \<and> Base c \<in> {''nc'', ''rsync'', ''scp'', ''sftp''}))"
  by (auto simp: fileTransferBlocked_def BlockedFileTransferCommands_def split: list.splits)

text \<open>
  Claim C2. \<open>fileTransferBlocked\<close> is true exactly when \<open>BlockFileTransfer\<close> is set
  and the subsystem is \<open>sftp\<close> or the base name of the first word of the session
  command is one of \<open>nc\<close>, \<open>rsync\<close>, \<open>scp\<close>, \<open>sftp\<close>. When it is true for an
  admitted session, the handler's calls other than the two reporting calls are: the write
  of the byte 2, the message \<open>File transfer has been disabled.\<close> and a newline when
  the subsystem is empty (no write otherwise), and then \<open>Exit\<close> with code 65; it calls
  neither \<open>sessionStart\<close> nor the SFTP server, so no process is started.
\<close>

theorem fileTransferBlocked_guard:
  "(fileTransferBlocked config session \<longleftrightarrow>
      BlockFileTransfer config \<and>
      (Subsystem session = ''sftp'' \<or>
       (\<exists>c rest. Command session = c # rest \<and>
          Base c \<in> {''nc'', ''rsync'', ''scp'', ''sftp''}))) \<and>
   (fileTransferBlocked config session \<and> fst (trackSession s (ident session) True) \<longrightarrow>
      sessionCalls (fst (sessionHandler config out s session)) =
        (if Subsystem session = []
         then [SessionWrite (CHR 0x02 # ''File transfer has been disabled.'' @ [CHR 0x0A])]
         else []) @ [SessionExit 65])"
proof (intro conjI impI)
  show "fileTransferBlocked config session \<longleftrightarrow>
      BlockFileTransfer config \<and>
      (Subsystem session = ''sftp'' \<or>
       (\<exists>c rest. Command session = c # rest \<and>
          Base c \<in> {''nc'', ''rsync'', ''scp'', ''sftp''}))"
    by (rule fileTransferBlocked_iff)
next
  assume a: "fileTransferBlocked config session \<and> fst (trackSession s (ident session) True)"
  then have None: "closing s = None" by (simp add: fst_trackSession_add)
  obtain magicType magicTypeRaw env
    where em: "extractMagicSessionType (mapToLower out) (Environ session) = (magicType, magicTypeRaw, env)"
    by (cases "extractMagicSessionType (mapToLower out) (Environ session)") auto
  define st0 where "st0 = (if magicType \<noteq> MagicSessionTypeJetBrains
                 then \<lparr>trace = [ReportConnection magicType (RemoteAddr session)],
                       scr = Some \<lparr>exitOnce = False, code = 0\<rparr>, reason = []\<rparr>
                 else \<lparr>trace = [], scr = None, reason = []\<rparr>)"
  define st1 where "st1 = dispatch config out session env magicType st0"
  define calls where "calls = (if Subsystem session = []
         then [SessionWrite (CHR 0x02 # ''File transfer has been disabled.'' @ [CHR 0x0A])]
         else []) @ [SessionExit 65]"
  have tr: "fst (sessionHandler config out s session) =
      (case scr st1 of Some t \<Rightarrow> trace st1 @ [Disconnected (exitCode t) (reason st1)]
       | None \<Rightarrow> trace st1)"
    unfolding sessionHandler_admitted_trace [OF None] em st0_def st1_def by (simp add: Let_def)
  have t1: "trace st1 = trace st0 @ calls"
    unfolding st1_def calls_def using a by (simp add: dispatch_blocked)
  have c: "sessionCalls calls = calls"
    by (simp add: calls_def sessionCalls_def isReportConnection_def isDisconnected_def)
  have c0: "sessionCalls (trace st0) = []"
    by (simp add: st0_def sessionCalls_def isReportConnection_def isDisconnected_def)
  have app: "sessionCalls (xs @ ys) = sessionCalls xs @ sessionCalls ys" for xs ys
    by (simp add: sessionCalls_def)
  have d: "sessionCalls [Disconnected k r] = []" for k r
    by (simp add: sessionCalls_def isDisconnected_def)
  have "sessionCalls (fst (sessionHandler config out s session)) = calls"
    unfolding tr t1 by (simp add: app c c0 d split: option.splits)
  then show "sessionCalls (fst (sessionHandler config out s session)) =
        (if Subsystem session = []
         then [SessionWrite (CHR 0x02 # ''File transfer has been disabled.'' @ [CHR 0x0A])]
         else []) @ [SessionExit 65]"
    unfolding calls_def .
qed

theorem sessionHandler_reports_witness:
  "(\<exists>mid. fst (sessionHandler exampleConfig exampleOutcomes exampleServer scpSession) =
            ReportConnection MagicSessionTypeVSCode ''10.0.0.1:4022'' # mid @
            [Disconnected 65 ''file transfer blocked''] \<and>
          firstExitCode mid = Some 65) \<and>
   map_option exitCode
     (scr (fold sessionCall [SessionWrite ''bye'', SessionClose, SessionExit 3] wrappedSession)) =
     Some 1 \<and>
   map_option exitCode
     (scr (fold sessionCall [SessionExit 3, SessionClose, SessionExit 4] wrappedSession)) =
     Some 3"
proof -
  let ?tr = "fst (sessionHandler exampleConfig exampleOutcomes exampleServer scpSession)"
  have tr: "?tr =
     [ReportConnection MagicSessionTypeVSCode ''10.0.0.1:4022'',
      SessionWrite (CHR 0x02 # ''File transfer has been disabled.'' @ [CHR 0x0A]),
      SessionExit 65, Disconnected 65 ''file transfer blocked'']"
    by code_simp
  have mt: "fst (extractMagicSessionType (mapToLower exampleOutcomes) (Environ scpSession)) =
      MagicSessionTypeVSCode"
    by code_simp
  have ad: "fst (trackSession exampleServer (ident scpSession) True)"
    by code_simp
  have ra: "RemoteAddr scpSession = ''10.0.0.1:4022''"
    by code_simp
  note T = sessionHandler_reports [of exampleConfig exampleOutcomes exampleServer scpSession]
  from T [of "[]", THEN conjunct1]
  obtain mid c r where
    eq: "?tr = ReportConnection MagicSessionTypeVSCode ''10.0.0.1:4022'' # mid @ [Disconnected c r]"
    and fe: "c = (case firstExitCode mid of Some c' \<Rightarrow> c' | None \<Rightarrow> 0)"
    unfolding Let_def mt ra using ad by auto
  from eq have mid: "mid = butlast (tl ?tr)" and last: "Disconnected c r = last ?tr"
    by simp_all
  have m: "mid = [SessionWrite (CHR 0x02 # ''File transfer has been disabled.'' @ [CHR 0x0A]),
      SessionExit 65]"
    unfolding mid tr by simp
  have c: "c = 65" using fe unfolding m by simp
  have r: "r = ''file transfer blocked''" using last unfolding tr by simp
  have 1: "\<exists>mid. ?tr = ReportConnection MagicSessionTypeVSCode ''10.0.0.1:4022'' # mid @
            [Disconnected 65 ''file transfer blocked''] \<and> firstExitCode mid = Some 65"
    using eq m c r by simp
  have 2: "map_option exitCode
     (scr (fold sessionCall [SessionWrite ''bye'', SessionClose, SessionExit 3] wrappedSession)) =
     Some 1"
    using T [of "[SessionWrite ''bye'', SessionClose, SessionExit 3]", THEN conjunct2] by simp
  have 3: "map_option exitCode
     (scr (fold sessionCall [SessionExit 3, SessionClose, SessionExit 4] wrappedSession)) =
     Some 3"
    using T [of "[SessionExit 3, SessionClose, SessionExit 4]", THEN conjunct2] by simp
  show ?thesis using 1 2 3 by (intro conjI)
qed

text \<open>
  A session that the closing server does not admit is reported all the same
  (the source: ``Report connection attempt even if we couldn't accept it'').
\<close>

theorem sessionHandler_not_admitted_counterexample:
  "\<not> fst (trackSession closingServer (ident exampleSession) True) \<and>
   fst (sessionHandler exampleConfig exampleOutcomes closingServer exampleSession) =
     [ReportConnection MagicSessionTypeVSCode ''10.0.0.1:4022'', SessionClose,
      Disconnected 1 ''unable to accept new session, server is closing'']"
  by code_simp

text \<open>
  An admitted session of type jetbrains is not reported, and a session whose SFTP server
  cannot be set up ends without \<open>Exit\<close> or \<open>Close\<close>: the callback then carries the
  initial value 0 of the tracker.
\<close>

lemma sessionHandler_jetbrains_not_reported:
  "fst (trackSession exampleServer (ident exampleSession) True) \<and>
   fst (sessionHandler exampleConfig exampleOutcomes exampleServer
          (exampleSession\<lparr>Environ := [''CODER_SSH_SESSION_TYPE=JetBrains'']\<rparr>)) =
     [SessionStart [] MagicSessionTypeJetBrains [] [], SessionExit 255]"
  by code_simp

lemma sessionHandler_sftp_init_failure_code:
  "fst (sessionHandler (exampleConfig\<lparr>BlockFileTransfer := False\<rparr>)
          (exampleOutcomes\<lparr>sftpServer := NewServerFails ''EOF''\<rparr>) exampleServer
          (exampleSession\<lparr>Subsystem := ''sftp''\<rparr>)) =
     [ReportConnection MagicSessionTypeVSCode ''10.0.0.1:4022'',
      Disconnected 0 ''initialize sftp server: EOF'']"
  by code_simp

theorem sessionHandler_exit_code_witness:
  "filter isSessionExit
     (fst (sessionHandler exampleConfig exampleOutcomes exampleServer exampleSession)) =
   [SessionExit 255]"
proof -
  have h: "filter isSessionStart
     (fst (sessionHandler exampleConfig exampleOutcomes exampleServer exampleSession)) \<noteq> []"
    by code_simp
  have o: "sessionStart exampleOutcomes = Some (ExitError (- 1))"
    by (simp add: exampleOutcomes_def)
  show ?thesis
    using sessionHandler_exit_code [OF h] unfolding o by simp
qed

theorem fileTransferBlocked_guard_witness:
  "fileTransferBlocked exampleConfig scpSession \<and>
   sessionCalls (fst (sessionHandler exampleConfig exampleOutcomes exampleServer scpSession)) =
     [SessionWrite (CHR 0x02 # ''File transfer has been disabled.'' @ [CHR 0x0A]),
      SessionExit 65]"
proof -
  have b: "fileTransferBlocked exampleConfig scpSession"
    by code_simp
  have ad: "fst (trackSession exampleServer (ident scpSession) True)"
    by code_simp
  have sub: "Subsystem scpSession = []"
    by code_simp
  show ?thesis
    using fileTransferBlocked_guard [of exampleConfig scpSession exampleServer exampleOutcomes]
      b ad sub
    by simp
qed

subsection \<open>Command builder\<close>

lemma CommandEnv_default:
  "CommandEnv d config (Some (case ei of None \<Rightarrow> SystemEnvInfo d | Some e \<Rightarrow> e)) env =
   CommandEnv d config ei env"
  by (cases ei) (simp_all add: CommandEnv_def)

lemma CreateCommand_unfold:
  assumes "CommandEnv d config ei env = Inr (shell, dir, env')"
  shows "CreateCommand d config script env ei =
     (let info = (case ei of None \<Rightarrow> SystemEnvInfo d | Some e \<Rightarrow> e);
          caller = (if windows d then ''/c'' else ''-c'');
          built = (\<lambda>name args.
            Result ((case ModifyCommand info name args of (n, a) \<Rightarrow> PTYCommandContext d n a)
                      \<lparr>Dir := dir,
                       Env := env' @ [''SSH_CLIENT=0.0.0.0 0 0'',
                                      ''SSH_CONNECTION=0.0.0.0 0 0.0.0.0 0'']\<rparr>))
      in if HasPrefix (TrimSpace script) ''#!'' then
           (case Split d (shebangLine script) of
              Inl err \<Rightarrow> Error (''split shebang: '' @ err)
            | Inr [] \<Rightarrow> Panic ''index out of range [0] with length 0''
            | Inr (w # ws) \<Rightarrow>
                built w (if script = [] then (if windows d then [] else [''-l''])
                         else ws @ [caller, script]))
         else built shell (if script = [] then (if windows d then [] else [''-l''])
                           else [caller, script]))"
  unfolding CreateCommand_def Let_def CommandEnv_default assms
  by (simp split: sum.splits list.splits prod.splits)

lemma TrimSpace_Nil: "TrimSpace [] = []"
  by code_simp

lemma HasPrefix_Nil: "HasPrefix [] (c # p) = False"
  by (simp add: HasPrefix_def)

text \<open>
  The name and the arguments that \<open>CreateCommand\<close> builds. When \<open>CommandEnv\<close>
  succeeds, \<open>CreateCommand\<close> hands the following name and arguments to the
  \<open>ModifyCommand\<close> hook of the \<open>EnvInfoer\<close> (the default hook returns them as
  they are), passes what the hook returns to the \<open>Execer\<close> and returns the command
  it gets:
  for an empty script the shell with \<open>-l\<close> (with no argument on Windows); for a
  non-empty script whose trimmed text does not start with \<open>#!\<close> the shell with the
  caller (\<open>-c\<close>, on Windows \<open>/c\<close>) and the script; for a script whose trimmed text
  starts with \<open>#!\<close> and whose first line after \<open>#!\<close> splits into the words
  \<open>w # ws\<close>, the name \<open>w\<close> with \<open>ws\<close>, the caller and the whole script. When the
  split fails, \<open>CreateCommand\<close> returns an error.
\<close>

lemma CreateCommand_argv:
  assumes "CommandEnv d config ei env = Inr (shell, dir, env')"
  shows "let info = (case ei of None \<Rightarrow> SystemEnvInfo d | Some e \<Rightarrow> e);
             caller = (if windows d then ''/c'' else ''-c'');
             built = (\<lambda>name args.
               Result ((case ModifyCommand info name args of (n, a) \<Rightarrow> PTYCommandContext d n a)
                         \<lparr>Dir := dir,
                          Env := env' @ [''SSH_CLIENT=0.0.0.0 0 0'',
                                         ''SSH_CONNECTION=0.0.0.0 0 0.0.0.0 0'']\<rparr>))
         in (script = [] \<longrightarrow>
               CreateCommand d config script env ei =
                 built shell (if windows d then [] else [''-l''])) \<and>
            (script \<noteq> [] \<and> \<not> HasPrefix (TrimSpace script) ''#!'' \<longrightarrow>
               CreateCommand d config script env ei = built shell [caller, script]) \<and>
            (\<forall>w ws. HasPrefix (TrimSpace script) ''#!'' \<and>
                 Split d (shebangLine script) = Inr (w # ws) \<longrightarrow>
               CreateCommand d config script env ei = built w (ws @ [caller, script])) \<and>
            (\<forall>err. HasPrefix (TrimSpace script) ''#!'' \<and>
                 Split d (shebangLine script) = Inl err \<longrightarrow>
               CreateCommand d config script env ei = Error (''split shebang: '' @ err))"
proof -
  have e: "script = [] \<Longrightarrow> \<not> HasPrefix (TrimSpace script) ''#!''"
    by (simp add: TrimSpace_Nil HasPrefix_Nil)
  show ?thesis
    unfolding CreateCommand_unfold [OF assms] Let_def
    using e by auto
qed

text \<open>
  Claim C8. Every command that \<open>CreateCommand\<close> returns has as working directory the
  value of \<open>WorkingDirectory()\<close> when that is non-empty and \<open>os.Stat\<close> succeeds on
  it, and the home directory of the user otherwise; its environment is what
  \<open>UpdateEnv\<close> returns for the user's base environment followed by the forwarded
  environment and \<open>USER\<close>, \<open>LOGNAME\<close> and \<open>SHELL\<close>, followed by
  \<open>SSH_CLIENT=0.0.0.0 0 0\<close> and \<open>SSH_CONNECTION=0.0.0.0 0 0.0.0.0 0\<close>.
\<close>

theorem CreateCommand_dir_env:
  assumes "CreateCommand d config script env ei = Result cmd"
  shows "let info = (case ei of None \<Rightarrow> SystemEnvInfo d | Some e \<Rightarrow> e);
             wd = WorkingDirectory config
         in (if wd \<noteq> [] \<and> Stat d wd then Dir cmd = wd else HomeDir info = Inr (Dir cmd)) \<and>
            (\<exists>username shell updated.
               User info = Inr username \<and> Shell info username = Inr shell \<and>
               UpdateEnv config
                 (Environ_info info @ env @
                  [''USER='' @ username, ''LOGNAME='' @ username, ''SHELL='' @ shell]) =
                 Inr updated \<and>
               Env cmd = updated @ [''SSH_CLIENT=0.0.0.0 0 0'',
                                    ''SSH_CONNECTION=0.0.0.0 0 0.0.0.0 0''])"
proof -
  define info where "info = (case ei of None \<Rightarrow> SystemEnvInfo d | Some e \<Rightarrow> e)"
  have "CommandEnv d config ei env = Inl err \<Longrightarrow>
          CreateCommand d config script env ei = Error (''prepare command env: '' @ err)" for err
    unfolding CreateCommand_def Let_def CommandEnv_default by simp
  with assms obtain shell dir env' where
    ce: "CommandEnv d config ei env = Inr (shell, dir, env')"
    by (cases "CommandEnv d config ei env") auto
  have cmd: "Dir cmd = dir \<and> Env cmd = env' @ [''SSH_CLIENT=0.0.0.0 0 0'',
                                    ''SSH_CONNECTION=0.0.0.0 0 0.0.0.0 0'']"
    using assms unfolding CreateCommand_unfold [OF ce] Let_def
    by (auto split: if_splits sum.splits list.splits prod.splits)
  from ce have
    "(if WorkingDirectory config \<noteq> [] \<and> Stat d (WorkingDirectory config)
      then dir = WorkingDirectory config else HomeDir info = Inr dir) \<and>
     (\<exists>username. User info = Inr username \<and> Shell info username = Inr shell \<and>
        UpdateEnv config
          (Environ_info info @ env @
           [''USER='' @ username, ''LOGNAME='' @ username, ''SHELL='' @ shell]) = Inr env')"
    unfolding CommandEnv_def info_def [symmetric] Let_def
    by (auto split: sum.splits if_splits)
  with cmd show ?thesis
    unfolding Let_def info_def [symmetric] by auto
qed

lemma CreateCommand_argv_examples:
  "CreateCommand exampleDeps exampleConfig [] [''TERM=xterm''] None =
     Result \<lparr>Path = ''/bin/bash'', Args = [''/bin/bash'', ''-l''],
             Dir = ''/home/coder'', Env = exampleEnv\<rparr> \<and>
   CreateCommand exampleDeps exampleConfig ''echo hi'' [''TERM=xterm''] None =
     Result \<lparr>Path = ''/bin/bash'', Args = [''/bin/bash'', ''-c'', ''echo hi''],
             Dir = ''/home/coder'', Env = exampleEnv\<rparr> \<and>
   CreateCommand exampleDeps exampleConfig shebangScript [''TERM=xterm''] None =
     Result \<lparr>Path = ''/usr/bin/env'',
             Args = [''/usr/bin/env'', ''python3'', ''-c'', shebangScript],
             Dir = ''/home/coder'', Env = exampleEnv\<rparr> \<and>
   CreateCommand exampleDeps exampleConfig (''#!/bin/sh -c '' @ [CHR 0x22]) [''TERM=xterm''] None =
     Error ''split shebang: Unterminated double-quoted string''"
proof -
  have ce: "CommandEnv exampleDeps exampleConfig None [''TERM=xterm''] =
      Inr (''/bin/bash'', ''/home/coder'',
           [''PATH=/usr/bin'', ''TERM=xterm'', ''USER=coder'', ''LOGNAME=coder'',
            ''SHELL=/bin/bash''])"
    by code_simp
  have w: "windows exampleDeps = False"
    by code_simp
  have m: "ModifyCommand (SystemEnvInfo exampleDeps) = (\<lambda>name args. (name, args))"
    by (simp add: exampleDeps_def exampleSystemEnvInfo_def)
  have p: "PTYCommandContext exampleDeps =
      (\<lambda>name args. \<lparr>Path = name, Args = name # args, Dir = [], Env = []\<rparr>)"
    by (simp add: exampleDeps_def)
  have plain: "\<not> HasPrefix (TrimSpace ''echo hi'') ''#!''"
    by code_simp
  have sb: "HasPrefix (TrimSpace shebangScript) ''#!''"
    by code_simp
  have sp: "Split exampleDeps (shebangLine shebangScript) = Inr [''/usr/bin/env'', ''python3'']"
    by code_simp
  have sb2: "HasPrefix (TrimSpace (''#!/bin/sh -c '' @ [CHR 0x22])) ''#!''"
    by code_simp
  have sp2: "Split exampleDeps (shebangLine (''#!/bin/sh -c '' @ [CHR 0x22])) =
      Inl ''Unterminated double-quoted string''"
    by code_simp
  show ?thesis
    using CreateCommand_argv [OF ce, of "[]"] CreateCommand_argv [OF ce, of "''echo hi''"]
      CreateCommand_argv [OF ce, of shebangScript]
      CreateCommand_argv [OF ce, of "''#!/bin/sh -c '' @ [CHR 0x22]"]
      plain sb sp sb2 sp2
    by (simp add: exampleEnv_def Let_def w m p)
qed

text \<open>
  With an \<open>EnvInfoer\<close> whose \<open>ModifyCommand\<close> wraps the command, the hook
  turns the shell with \<open>-l\<close> into the command that runs it in the container.
\<close>

lemma CreateCommand_container_hook:
  "CreateCommand exampleDeps exampleConfig [] [''TERM=xterm''] (Some exampleContainerEnvInfo) =
     Result \<lparr>Path = ''docker'',
             Args = [''docker'', ''exec'', ''-it'', ''box'', ''/bin/bash'', ''-l''],
             Dir = ''/home/coder'', Env = exampleEnv\<rparr>"
  by code_simp

text \<open>
  \<open>strings.TrimSpace\<close> removes a leading no-break space (U+00A0) and a trailing line
  separator (U+2028): a script that starts with \<open>#!\<close> after them is run by its
  interpreter, and the script is passed as it came.
\<close>

lemma CreateCommand_unicode_space:
  "CreateCommand exampleDeps exampleConfig
     ([CHR 0xC2, CHR 0xA0] @ ''#!/bin/sh'' @ [CHR 0xE2, CHR 0x80, CHR 0xA8]) [''TERM=xterm''] None =
     Result \<lparr>Path = ''/bin/sh'',
             Args = [''/bin/sh'', ''-c'',
                     [CHR 0xC2, CHR 0xA0] @ ''#!/bin/sh'' @ [CHR 0xE2, CHR 0x80, CHR 0xA8]],
             Dir = ''/home/coder'', Env = exampleEnv\<rparr>"
  by code_simp

text \<open>
  Claim C5. \<open>CreateCommand\<close> builds the name and the arguments that the claim gives
  (lemma \<open>CreateCommand_argv\<close>) except for a script whose trimmed text starts with
  \<open>#!\<close> and whose first line holds no word after \<open>#!\<close>, such as the script
  \<open>#!\<close>: \<open>shellquote.Split\<close> then returns no word and no error, and the source
  takes \<open>words[0]\<close> without a test of the length, so that \<open>CreateCommand\<close>
  panics where the claim has it build the command or return an error.
\<close>

theorem CreateCommand_empty_shebang_panics:
  assumes "CommandEnv d config ei env = Inr (shell, dir, env')"
    and "HasPrefix (TrimSpace script) ''#!''"
    and "Split d (shebangLine script) = Inr []"
  shows "CreateCommand d config script env ei = Panic ''index out of range [0] with length 0''"
  unfolding CreateCommand_unfold [OF assms(1)] Let_def
  using assms(2,3) by simp

theorem CreateCommand_empty_shebang_panics_witness:
  "shebangLine ''#!'' = [] \<and> Split exampleDeps [] = Inr [] \<and>
   CreateCommand exampleDeps exampleConfig ''#!'' [''TERM=xterm''] None =
     Panic ''index out of range [0] with length 0'' \<and>
   CreateCommand exampleDeps exampleConfig (''  #! '' @ [CHR 0x0A] @ ''echo hi'') [''TERM=xterm''] None =
     Panic ''index out of range [0] with length 0''"
proof -
  have ce: "CommandEnv exampleDeps exampleConfig None [''TERM=xterm''] =
      Inr (''/bin/bash'', ''/home/coder'',
           [''PATH=/usr/bin'', ''TERM=xterm'', ''USER=coder'', ''LOGNAME=coder'',
            ''SHELL=/bin/bash''])"
    by code_simp
  have sl: "shebangLine ''#!'' = []"
    by code_simp
  have sp: "Split exampleDeps [] = Inr []"
    by code_simp
  have sb: "HasPrefix (TrimSpace ''#!'') ''#!''"
    by code_simp
  have sl2: "shebangLine (''  #! '' @ [CHR 0x0A] @ ''echo hi'') = []"
    by code_simp
  have sb2: "HasPrefix (TrimSpace (''  #! '' @ [CHR 0x0A] @ ''echo hi'')) ''#!''"
    by code_simp
  have 1: "CreateCommand exampleDeps exampleConfig ''#!'' [''TERM=xterm''] None =
     Panic ''index out of range [0] with length 0''"
    by (rule CreateCommand_empty_shebang_panics [OF ce sb]) (simp only: sl sp)
  have 2: "CreateCommand exampleDeps exampleConfig (''  #! '' @ [CHR 0x0A] @ ''echo hi'')
             [''TERM=xterm''] None =
     Panic ''index out of range [0] with length 0''"
    by (rule CreateCommand_empty_shebang_panics [OF ce sb2]) (simp only: sl2 sp)
  show ?thesis by (intro conjI sl sp 1 2)
qed

theorem CreateCommand_dir_env_witness:
  "CreateCommand exampleDeps workspaceConfig ''echo hi'' [''TERM=xterm''] None =
     Result \<lparr>Path = ''/bin/bash'', Args = [''/bin/bash'', ''-c'', ''echo hi''],
             Dir = ''/workspace'', Env = exampleEnv\<rparr> \<and>
   CreateCommand exampleDeps exampleConfig ''echo hi'' [''TERM=xterm''] None =
     Result \<lparr>Path = ''/bin/bash'', Args = [''/bin/bash'', ''-c'', ''echo hi''],
             Dir = ''/home/coder'', Env = exampleEnv\<rparr>"
proof -
  let ?cmd = "\<lparr>Path = ''/bin/bash'', Args = [''/bin/bash'', ''-c'', ''echo hi''],
             Dir = ''/workspace'', Env = exampleEnv\<rparr>"
  let ?cmd' = "\<lparr>Path = ''/bin/bash'', Args = [''/bin/bash'', ''-c'', ''echo hi''],
             Dir = ''/home/coder'', Env = exampleEnv\<rparr>"
  have r: "CreateCommand exampleDeps workspaceConfig ''echo hi'' [''TERM=xterm''] None = Result ?cmd"
    by code_simp
  have r': "CreateCommand exampleDeps exampleConfig ''echo hi'' [''TERM=xterm''] None = Result ?cmd'"
    by code_simp
  have "Dir ?cmd = WorkingDirectory workspaceConfig"
    using CreateCommand_dir_env [OF r] by (simp add: Let_def workspaceConfig_def exampleDeps_def)
  moreover have "HomeDir (SystemEnvInfo exampleDeps) = Inr (Dir ?cmd')"
    using CreateCommand_dir_env [OF r'] by (simp add: Let_def exampleConfig_def)
  ultimately show ?thesis using r r' by simp
qed

subsection \<open>Banner and MOTD writer, PTY session runner\<close>


















lemma TrimSpace_examples:
  "TrimSpace ''  Maintenance at noon  '' = ''Maintenance at noon''"
  "TrimSpace ''Be kind'' = ''Be kind''"
  by code_simp+



text \<open>
  The banner loop ends at the first banner that cannot be written: when only the first
  write fails, after five bytes, the later banner is not shown, and the MOTD is.
\<close>

lemma startPTYSession_banner_failure_skips_rest:
  "startPTYSession bannerConfig exampleFs
     (examplePtyOutcomes\<lparr>writeFails := (\<lambda>n. if n = 0 then Some (''EOF'', 5) else None)\<rparr>)
     [] shellCmd ''xterm'' =
     \<lparr>logged = [''agent failed to show announcement banner''],
      received = \<lparr>calls = 3,
                  written = ''Maint'' @ ''Welcome'' @ [CHR 0x0D, CHR 0x0A] @
                            ''to the workspace'' @ [CHR 0x0D, CHR 0x0A]\<rparr>,
      startedCmd = shellCmd\<lparr>Env := Env shellCmd @ [''TERM=xterm'']\<rparr>, returned = None\<rparr>"
  by (simp add: startPTYSession_def bannerConfig_def exampleConfig_def exampleFs_def
      examplePtyOutcomes_def shellCmd_def isLoginShell_def isQuietLogin_def showMOTD_def
      showAnnouncementBanner_def writeWithCarriageReturn_def scanLines_def dropCR_def
      Fprint_def runPty_def TrimSpace_examples MaxScanTokenSize_def Let_def)

text \<open>
  \<open>strings.TrimSpace\<close> removes a no-break space (U+00A0) before the message of a
  banner: the session receives the message without it.
\<close>

lemma showAnnouncementBanner_unicode_space:
  "showAnnouncementBanner (\<lambda>n. None) \<lparr>calls = 0, written = []\<rparr>
     \<lparr>Enabled = True, Message = [CHR 0xC2, CHR 0xA0] @ ''Hi''\<rparr> =
   (None, \<lparr>calls = 2, written = ''Hi'' @ [CHR 0x0D, CHR 0x0A, CHR 0x0D, CHR 0x0A]\<rparr>)"
proof -
  have t: "TrimSpace [CHR 0xC2, CHR 0xA0, CHR ''H'', CHR ''i''] = ''Hi''"
    by code_simp
  show ?thesis
    by (simp add: showAnnouncementBanner_def writeWithCarriageReturn_def scanLines_def
        dropCR_def Fprint_def t MaxScanTokenSize_def Let_def)
qed

subsection \<open>Resource tracker and server life cycle\<close>

lemma serverInv_iff:
  "serverInv s \<longleftrightarrow>
     (\<forall>ch. closing s = Some ch \<longrightarrow> ch < nextChan s \<and> ch \<notin> closedChans s) \<and>
     (\<forall>ch\<in>closedChans s. ch < nextChan s)"
  by (simp add: serverInv_def split: option.splits)


lemma serverInv_NewServer: "serverInv NewServer"
  by (simp add: serverInv_iff NewServer_def)

lemma serverInv_UpdateHostSigner: "serverInv s \<Longrightarrow> serverInv (UpdateHostSigner s)"
  by (simp add: serverInv_iff UpdateHostSigner_def)

lemma serverInv_trackListener_add:
  "serverInv s \<Longrightarrow> trackListener_add s l = Inr s' \<Longrightarrow> serverInv s'"
  by (auto simp: serverInv_iff trackListener_add_def split: option.splits)

lemma serverInv_trackListener_remove: "serverInv s \<Longrightarrow> serverInv (trackListener_remove s l)"
  by (simp add: serverInv_iff trackListener_remove_def)

lemma serverInv_trackConn: "serverInv s \<Longrightarrow> serverInv (snd (trackConn s l c add))"
  by (simp add: serverInv_iff trackConn_def Let_def)

lemma serverInv_trackSession: "serverInv s \<Longrightarrow> serverInv (snd (trackSession s ss add))"
  by (simp add: serverInv_iff trackSession_def)

lemma serverInv_trackProcess: "serverInv s \<Longrightarrow> serverInv (snd (trackProcess s p add))"
  by (simp add: serverInv_iff trackProcess_def)

lemma serverInv_Close_enter:
  "serverInv s \<Longrightarrow> Close_enter s = Inr (s', effects) \<Longrightarrow> serverInv s'"
  by (fastforce simp: serverInv_iff Close_enter_def less_Suc_eq split: option.splits)

lemma serverInv_Close_finish:
  "serverInv s \<Longrightarrow> Close_finish s = Result s' \<Longrightarrow> serverInv s'"
  by (auto simp: serverInv_iff Close_finish_def split: option.splits)

lemma serverInv_Close_step:
  "serverInv s \<Longrightarrow> Close_step e pos s = Some (pos', s') \<Longrightarrow> serverInv s'"
  by (auto simp: Close_step_def split: closePosition.splits sum.splits if_splits result.splits
      dest: serverInv_Close_enter serverInv_Close_finish)

lemma serverInv_countSession: "serverInv s \<Longrightarrow> serverInv (countSession mt d s)"
  by (cases mt) (simp_all add: serverInv_iff countSession_def)

lemma serverInv_sessionHandler:
  "serverInv s \<Longrightarrow> serverInv (snd (sessionHandler config out s session))"
  by (auto simp: sessionHandler_def Let_def trackSession_def serverInv_iff countSession_def
      split: prod.splits MagicSessionType.splits)

lemma closedChans_Close_step:
  "Close_step e pos s = Some (pos', s') \<Longrightarrow> closedChans s \<subseteq> closedChans s'"
  by (cases pos)
    (auto simp: Close_step_def Close_enter_def Close_finish_def
      split: if_splits option.splits)

text \<open>
  Claim C7. A call of \<open>Close\<close> on a server that is not closing makes the channel
  \<open>closing\<close>, closes what is tracked and goes on to wait for the wait group. In every
  state of the tracker in which \<open>closing\<close> is a channel \<open>ch\<close> (and which satisfies
  the property that every step keeps): the addition of a listener waits for \<open>ch\<close>, on
  which no receive returns in this state; the additions of a connection, a session and a
  process fail and leave the state as it is; another call of \<open>Close\<close> waits for
  \<open>ch\<close> too and cannot go on; the closing caller cannot go on before the wait group
  is done. When the wait group is done, the closing caller finishes: \<open>closing\<close> is nil
  again and \<open>ch\<close> is closed, so that the waiting caller of \<open>Close\<close> returns the
  error \<open>server is closed\<close>, and \<open>Serve\<close> registers a listener on a server that
  has a host key.
\<close>

theorem closing_gates_admission:
  assumes "serverInv s"
  shows "(closing s = None \<longrightarrow>
            (\<exists>s1. Close_step e CloseCalled s = Some (CloseDrains, s1) \<and>
                  Close_enter s =
                    Inr (s1, [CloseListeners (listeners s), CloseSessions (sessions s),
                              CloseConns (conns s), CmdCancelProcesses (processes s),
                              CloseSSHServer, CloseX11Forwarder]) \<and>
                  closing s1 = Some (nextChan s) \<and> serverInv s1 \<and>
                  \<not> receiveReturns s1 (nextChan s) \<and>
                  listeners s1 = listeners s \<and> conns s1 = conns s \<and>
                  sessions s1 = sessions s \<and> processes s1 = processes s \<and> wg s1 = wg s)) \<and>
         (\<forall>ch. closing s = Some ch \<longrightarrow>
            trackListener_add s l = Inl ch \<and> \<not> receiveReturns s ch \<and>
            trackConn s l c True = (False, s) \<and>
            trackSession s ss True = (False, s) \<and>
            trackProcess s p True = (False, s) \<and>
            Close_step e CloseCalled s = Some (CloseWaitsFor ch, s) \<and>
            Close_step e (CloseWaitsFor ch) s = None \<and>
            (\<not> waitGroupDone s \<longrightarrow> Close_step e' CloseDrains s = None) \<and>
            (waitGroupDone s \<longrightarrow>
               (\<exists>s'. Close_step e' CloseDrains s = Some (CloseReturned e', s') \<and>
                     closing s' = None \<and> serverInv s' \<and> receiveReturns s' ch \<and>
                     Close_step e (CloseWaitsFor ch) s' =
                       Some (CloseReturned (Some ''server is closed''), s') \<and>
                     (0 < hostSigners s \<longrightarrow>
                        Serve_begin s' l =
                          Inr (Inr (s'\<lparr>wg := wg s' + 1,
                                       listeners := insert l (listeners s')\<rparr>))))))"
proof (intro conjI allI impI)
  assume n: "closing s = None"
  let ?s1 = "s\<lparr>closing := Some (nextChan s), nextChan := nextChan s + 1\<rparr>"
  let ?effects = "[CloseListeners (listeners s), CloseSessions (sessions s),
                   CloseConns (conns s), CmdCancelProcesses (processes s),
                   CloseSSHServer, CloseX11Forwarder]"
  have ce: "Close_enter s = Inr (?s1, ?effects)"
    using n by (simp add: Close_enter_def)
  have a: "Close_step e CloseCalled s = Some (CloseDrains, ?s1)"
    using ce by (simp add: Close_step_def)
  have b: "closing ?s1 = Some (nextChan s)" by simp
  have inv: "serverInv ?s1"
    using serverInv_Close_enter [OF assms ce] .
  have nr: "\<not> receiveReturns ?s1 (nextChan s)"
    using assms by (auto simp: serverInv_iff receiveReturns_def)
  have k: "listeners ?s1 = listeners s \<and> conns ?s1 = conns s \<and>
           sessions ?s1 = sessions s \<and> processes ?s1 = processes s \<and> wg ?s1 = wg s"
    by simp
  show "\<exists>s1. Close_step e CloseCalled s = Some (CloseDrains, s1) \<and>
             Close_enter s = Inr (s1, ?effects) \<and>
             closing s1 = Some (nextChan s) \<and> serverInv s1 \<and>
             \<not> receiveReturns s1 (nextChan s) \<and>
             listeners s1 = listeners s \<and> conns s1 = conns s \<and>
             sessions s1 = sessions s \<and> processes s1 = processes s \<and> wg s1 = wg s"
    by (rule exI [of _ ?s1]) (intro conjI a ce b inv nr k [THEN conjunct1]
        k [THEN conjunct2, THEN conjunct1] k [THEN conjunct2, THEN conjunct2, THEN conjunct1]
        k [THEN conjunct2, THEN conjunct2, THEN conjunct2, THEN conjunct1]
        k [THEN conjunct2, THEN conjunct2, THEN conjunct2, THEN conjunct2])
next
  fix ch
  assume cl: "closing s = Some ch"
  show "trackListener_add s l = Inl ch"
    using cl by (simp add: trackListener_add_def)
  show nr: "\<not> receiveReturns s ch"
    using assms cl by (simp add: serverInv_iff receiveReturns_def)
  show "trackConn s l c True = (False, s)"
    using cl by (simp add: trackConn_def)
  show "trackSession s ss True = (False, s)"
    using cl by (simp add: trackSession_def)
  show "trackProcess s p True = (False, s)"
    using cl by (simp add: trackProcess_def)
  show "Close_step e CloseCalled s = Some (CloseWaitsFor ch, s)"
    using cl by (simp add: Close_step_def Close_enter_def)
  show "Close_step e (CloseWaitsFor ch) s = None"
    using nr by (simp add: Close_step_def)
next
  fix ch
  assume cl: "closing s = Some ch" and nw: "\<not> waitGroupDone s"
  show "Close_step e' CloseDrains s = None"
    using nw by (simp add: Close_step_def)
next
  fix ch
  assume cl: "closing s = Some ch" and w: "waitGroupDone s"
  let ?s' = "s\<lparr>closedChans := insert ch (closedChans s), closing := None\<rparr>"
  have f: "Close_finish s = Result ?s'"
    using cl by (simp add: Close_finish_def)
  have a: "Close_step e' CloseDrains s = Some (CloseReturned e', ?s')"
    using w f by (simp add: Close_step_def)
  have b: "serverInv ?s'"
    using serverInv_Close_finish [OF assms f] .
  have c: "receiveReturns ?s' ch"
    by (simp add: receiveReturns_def)
  have d: "Close_step e (CloseWaitsFor ch) ?s' =
      Some (CloseReturned (Some ''server is closed''), ?s')"
    using c by (simp add: Close_step_def)
  have g: "0 < hostSigners s \<longrightarrow>
      Serve_begin ?s' l =
        Inr (Inr (?s'\<lparr>wg := wg ?s' + 1, listeners := insert l (listeners ?s')\<rparr>))"
    by (simp add: Serve_begin_def trackListener_add_def)
  have h: "closing ?s' = None" by simp
  show "\<exists>s'. Close_step e' CloseDrains s = Some (CloseReturned e', s') \<and>
             closing s' = None \<and> serverInv s' \<and> receiveReturns s' ch \<and>
             Close_step e (CloseWaitsFor ch) s' =
               Some (CloseReturned (Some ''server is closed''), s') \<and>
             (0 < hostSigners s \<longrightarrow>
                Serve_begin s' l =
                  Inr (Inr (s'\<lparr>wg := wg s' + 1, listeners := insert l (listeners s')\<rparr>)))"
    by (rule exI [of _ ?s']) (intro conjI a h b c d g)
qed

theorem closing_gates_admission_witness:
  "Close_step None CloseCalled exampleServer = Some (CloseDrains, closingServer) \<and>
   closing closingServer = Some 0 \<and>
   trackListener_add closingServer 3 = Inl 0 \<and>
   trackConn closingServer 3 4 True = (False, closingServer) \<and>
   trackSession closingServer 7 True = (False, closingServer) \<and>
   trackProcess closingServer 9 True = (False, closingServer) \<and>
   Close_step None CloseCalled closingServer = Some (CloseWaitsFor 0, closingServer) \<and>
   Close_step None (CloseWaitsFor 0) closingServer = None \<and>
   Close_step None CloseDrains (closingServer\<lparr>wg := 1\<rparr>) = None \<and>
   Close_step None CloseDrains closingServer =
     Some (CloseReturned None, exampleServer\<lparr>nextChan := 1, closedChans := {0}\<rparr>) \<and>
   Close_step None (CloseWaitsFor 0) (exampleServer\<lparr>nextChan := 1, closedChans := {0}\<rparr>) =
     Some (CloseReturned (Some ''server is closed''),
           exampleServer\<lparr>nextChan := 1, closedChans := {0}\<rparr>) \<and>
   Serve_begin (exampleServer\<lparr>nextChan := 1, closedChans := {0}\<rparr>) 3 =
     Inr (Inr (exampleServer\<lparr>nextChan := 1, closedChans := {0}, wg := 1, listeners := {3}\<rparr>))"
proof -
  let ?s' = "exampleServer\<lparr>nextChan := 1, closedChans := {0}\<rparr>"
  have inv0: "serverInv exampleServer"
    by (simp add: serverInv_iff exampleServer_def)
  have cl0: "closing exampleServer = None"
    by (simp add: exampleServer_def)
  have en: "Close_step None CloseCalled exampleServer = Some (CloseDrains, closingServer)"
    by (simp add: Close_step_def Close_enter_def closingServer_def exampleServer_def)
  from closing_gates_admission [OF inv0, of None 3 4 7 9 None, THEN conjunct1, THEN mp, OF cl0]
  obtain s1 where
    s1: "Close_step None CloseCalled exampleServer = Some (CloseDrains, s1)"
    and c1: "closing s1 = Some (nextChan exampleServer)"
    and inv1: "serverInv s1"
    by (elim exE conjE)
  have eq1: "s1 = closingServer"
    using s1 unfolding en by (simp only: option.inject prod.inject)
  have inv: "serverInv closingServer"
    using inv1 unfolding eq1 .
  have cl: "closing closingServer = Some 0"
    using c1 unfolding eq1 by (simp add: exampleServer_def)
  have w: "waitGroupDone closingServer"
    by (simp add: waitGroupDone_def closingServer_def exampleServer_def)
  have hs: "0 < hostSigners closingServer"
    by (simp add: closingServer_def exampleServer_def)
  have fin: "Close_step None CloseDrains closingServer = Some (CloseReturned None, ?s')"
    by (simp add: Close_step_def Close_finish_def waitGroupDone_def closingServer_def
        exampleServer_def)
  note T = closing_gates_admission [OF inv, of None 3 4 7 9 None, THEN conjunct2, THEN spec,
      THEN mp, OF cl]
  have a: "trackListener_add closingServer 3 = Inl 0"
    by (rule T [THEN conjunct1])
  have b: "trackConn closingServer 3 4 True = (False, closingServer)"
    by (rule T [THEN conjunct2, THEN conjunct2, THEN conjunct1])
  have c: "trackSession closingServer 7 True = (False, closingServer)"
    by (rule T [THEN conjunct2, THEN conjunct2, THEN conjunct2, THEN conjunct1])
  have d: "trackProcess closingServer 9 True = (False, closingServer)"
    by (rule T [THEN conjunct2, THEN conjunct2, THEN conjunct2, THEN conjunct2, THEN conjunct1])
  have e: "Close_step None CloseCalled closingServer = Some (CloseWaitsFor 0, closingServer)"
    by (rule T [THEN conjunct2, THEN conjunct2, THEN conjunct2, THEN conjunct2, THEN conjunct2,
          THEN conjunct1])
  have f: "Close_step None (CloseWaitsFor 0) closingServer = None"
    by (rule T [THEN conjunct2, THEN conjunct2, THEN conjunct2, THEN conjunct2, THEN conjunct2,
          THEN conjunct2, THEN conjunct1])
  have invb: "serverInv (closingServer\<lparr>wg := 1\<rparr>)"
    by (simp add: serverInv_iff closingServer_def exampleServer_def)
  have clb: "closing (closingServer\<lparr>wg := 1\<rparr>) = Some 0"
    by (simp add: closingServer_def)
  have nwb: "\<not> waitGroupDone (closingServer\<lparr>wg := 1\<rparr>)"
    by (simp add: waitGroupDone_def)
  have busy: "Close_step None CloseDrains (closingServer\<lparr>wg := 1\<rparr>) = None"
    by (rule closing_gates_admission [OF invb, of None 3 4 7 9 None, THEN conjunct2, THEN spec,
          THEN mp, OF clb, THEN conjunct2, THEN conjunct2, THEN conjunct2, THEN conjunct2,
          THEN conjunct2, THEN conjunct2, THEN conjunct2, THEN conjunct1, THEN mp, OF nwb])
  from T [THEN conjunct2, THEN conjunct2, THEN conjunct2, THEN conjunct2, THEN conjunct2,
          THEN conjunct2, THEN conjunct2, THEN conjunct2, THEN mp, OF w]
  obtain s' where
    s1: "Close_step None CloseDrains closingServer = Some (CloseReturned None, s')"
    and s2: "Close_step None (CloseWaitsFor 0) s' =
              Some (CloseReturned (Some ''server is closed''), s')"
    and s3: "0 < hostSigners closingServer \<longrightarrow>
              Serve_begin s' 3 =
                Inr (Inr (s'\<lparr>wg := wg s' + 1, listeners := insert 3 (listeners s')\<rparr>))"
    by (elim exE conjE)
  have eq: "s' = ?s'"
    using s1 unfolding fin by (simp only: option.inject prod.inject)
  have g: "Close_step None (CloseWaitsFor 0) ?s' =
      Some (CloseReturned (Some ''server is closed''), ?s')"
    using s2 unfolding eq .
  have k: "Serve_begin ?s' 3 =
      Inr (Inr (?s'\<lparr>wg := wg ?s' + 1, listeners := insert 3 (listeners ?s')\<rparr>))"
    using s3 hs unfolding eq by (rule mp)
  have r: "?s'\<lparr>wg := wg ?s' + 1, listeners := insert 3 (listeners ?s')\<rparr> =
      exampleServer\<lparr>nextChan := 1, closedChans := {0}, wg := 1, listeners := {3}\<rparr>"
    by (simp add: exampleServer_def)
  have h: "Serve_begin ?s' 3 =
      Inr (Inr (exampleServer\<lparr>nextChan := 1, closedChans := {0}, wg := 1, listeners := {3}\<rparr>))"
    using k unfolding r .
  show ?thesis by (intro conjI en cl a b c d e f busy fin g h)
qed

subsection \<open>Shutdown\<close>

lemma selectCase_ctx_time:
  "selectCase ctx run = CaseCtxDone t \<Longrightarrow> \<exists>d. doneAt ctx = Some d \<and> d \<le> t"
  by (auto simp: selectCase_def Let_def split: option.splits if_splits)

lemma selectCase_close_time:
  "selectCase ctx run = CaseCloseResult t \<Longrightarrow> \<exists>c. closeReturnsAt run = Some c \<and> c \<le> t"
  by (auto simp: selectCase_def Let_def split: option.splits if_splits)

lemma selectCase_blocks:
  "selectCase ctx run = SelectBlocks \<longleftrightarrow> doneAt ctx = None \<and> closeReturnsAt run = None"
  by (auto simp: selectCase_def Let_def split: option.splits if_splits)

lemma ctx_Err_done: "doneAt ctx = Some d \<Longrightarrow> d \<le> t \<Longrightarrow> ctx_Err ctx t = Some (ctxError ctx)"
  by (simp add: ctx_Err_def)

lemma Shutdown_ctx_done_before_close:
  assumes "doneAt ctx = Some d" "closeReturnsAt run = Some c" "d \<le> c"
  shows "Shutdown ctx run = Some (Some (''close server: '' @ ctxError ctx))"
proof (cases "selectCase ctx run")
  case (CaseCtxDone t)
  from selectCase_ctx_time [OF this] assms(1) have "d \<le> t" by simp
  then have "ctx_Err ctx t = Some (ctxError ctx)" "ctx_Err ctx (t + recheckAfter run) = Some (ctxError ctx)"
    using assms(1) by (simp_all add: ctx_Err_def)
  with CaseCtxDone show ?thesis by (simp add: Shutdown_def)
next
  case (CaseCloseResult t)
  from selectCase_close_time [OF this] assms(2) have "c \<le> t" by simp
  with assms(3) have "d \<le> t + recheckAfter run" by simp
  then have "ctx_Err ctx (t + recheckAfter run) = Some (ctxError ctx)"
    using assms(1) by (simp add: ctx_Err_def)
  with CaseCloseResult show ?thesis by (simp add: Shutdown_def)
next
  case SelectBlocks
  with assms show ?thesis by (simp add: selectCase_blocks)
qed

lemma Shutdown_nil:
  assumes "Shutdown ctx run = Some None"
  shows "closeResult run = None \<and>
         (\<exists>c t. closeReturnsAt run = Some c \<and> recheckAt ctx run = Some t \<and> c \<le> t \<and>
                ctx_Err ctx t = None)"
proof (cases "selectCase ctx run")
  case (CaseCtxDone t)
  from selectCase_ctx_time [OF this] obtain d where "doneAt ctx = Some d" "d \<le> t" by auto
  then have "ctx_Err ctx t = Some (ctxError ctx)"
    "ctx_Err ctx (t + recheckAfter run) = Some (ctxError ctx)"
    by (simp_all add: ctx_Err_def)
  with CaseCtxDone assms show ?thesis by (simp add: Shutdown_def)
next
  case (CaseCloseResult t)
  from selectCase_close_time [OF this] obtain c where c: "closeReturnsAt run = Some c" "c \<le> t"
    by auto
  have r: "recheckAt ctx run = Some (t + recheckAfter run)"
    using CaseCloseResult by (simp add: recheckAt_def)
  from CaseCloseResult assms have "closeResult run = None"
    and "ctx_Err ctx (t + recheckAfter run) = None"
    by (auto simp: Shutdown_def Let_def split: option.splits)
  with c r show ?thesis by simp
next
  case SelectBlocks
  with assms show ?thesis by (simp add: Shutdown_def)
qed

lemma Shutdown_never_cancelled:
  assumes "doneAt ctx = None" "closeReturnsAt run = Some c"
  shows "Shutdown ctx run = Some (map_option (\<lambda>e. ''close server: '' @ e) (closeResult run))"
  using assms by (cases "closeResult run") (simp_all add: Shutdown_def selectCase_def ctx_Err_def Let_def)

text \<open>
  \<open>Shutdown\<close> returns unless the context is never cancelled and \<open>Close\<close> never
  returns.
\<close>

lemma Shutdown_blocks:
  "Shutdown ctx run = None \<longleftrightarrow> doneAt ctx = None \<and> closeReturnsAt run = None"
  using selectCase_blocks [of ctx run]
  by (cases "selectCase ctx run") (simp_all add: Shutdown_def Let_def)

text \<open>
  Claim C10. Whenever the context is cancelled no later than the internal \<open>Close\<close>
  returns, \<open>Shutdown\<close> returns the error of the context wrapped in \<open>close server\<close>,
  whatever \<open>Close\<close> returned. \<open>Shutdown\<close> returns nil only when \<open>Close\<close>
  returned before the re-check of the context, returned nil, and the context was not
  cancelled up to that re-check; and it does
  return nil when \<open>Close\<close> returns nil and the context is never cancelled.
\<close>

theorem Shutdown_context_precedence:
  "(\<forall>d c. doneAt ctx = Some d \<and> closeReturnsAt run = Some c \<and> d \<le> c \<longrightarrow>
       Shutdown ctx run = Some (Some (''close server: '' @ ctxError ctx))) \<and>
   (Shutdown ctx run = Some None \<longrightarrow>
       closeResult run = None \<and>
       (\<exists>c t. closeReturnsAt run = Some c \<and> recheckAt ctx run = Some t \<and> c \<le> t \<and>
              ctx_Err ctx t = None)) \<and>
   (doneAt ctx = None \<and> closeReturnsAt run \<noteq> None \<and> closeResult run = None \<longrightarrow>
       Shutdown ctx run = Some None)"
proof (intro conjI allI impI)
  fix d c
  assume "doneAt ctx = Some d \<and> closeReturnsAt run = Some c \<and> d \<le> c"
  then show "Shutdown ctx run = Some (Some (''close server: '' @ ctxError ctx))"
    using Shutdown_ctx_done_before_close by blast
next
  assume a: "Shutdown ctx run = Some None"
  from Shutdown_nil [OF a] show "closeResult run = None" by (rule conjunct1)
  from Shutdown_nil [OF a]
  show "\<exists>c t. closeReturnsAt run = Some c \<and> recheckAt ctx run = Some t \<and> c \<le> t \<and>
              ctx_Err ctx t = None"
    by (rule conjunct2)
next
  assume "doneAt ctx = None \<and> closeReturnsAt run \<noteq> None \<and> closeResult run = None"
  then obtain c where "doneAt ctx = None" "closeReturnsAt run = Some c" "closeResult run = None"
    by auto
  then show "Shutdown ctx run = Some None"
    using Shutdown_never_cancelled [of ctx run c] by simp
qed

theorem Shutdown_context_precedence_witness:
  "Shutdown \<lparr>doneAt = Some 5, ctxError = ''context deadline exceeded''\<rparr>
     \<lparr>closeReturnsAt = Some 5, closeResult = None, selectAt = 0, takeCtx = False,
      recheckAfter = 0\<rparr> =
     Some (Some ''close server: context deadline exceeded'') \<and>
   Shutdown \<lparr>doneAt = None, ctxError = []\<rparr>
     \<lparr>closeReturnsAt = Some 5, closeResult = None, selectAt = 0, takeCtx = False,
      recheckAfter = 0\<rparr> = Some None \<and>
   recheckAt \<lparr>doneAt = None, ctxError = []\<rparr>
     \<lparr>closeReturnsAt = Some 5, closeResult = None, selectAt = 0, takeCtx = False,
      recheckAfter = 0\<rparr> = Some 5"
proof -
  let ?ctx = "\<lparr>doneAt = Some 5, ctxError = ''context deadline exceeded''\<rparr>"
  let ?ctx' = "\<lparr>doneAt = None, ctxError = []\<rparr>"
  let ?run = "\<lparr>closeReturnsAt = Some 5, closeResult = None, selectAt = 0, takeCtx = False,
      recheckAfter = 0\<rparr>"
  have "doneAt ?ctx = Some 5 \<and> closeReturnsAt ?run = Some 5 \<and> (5::nat) \<le> 5"
    by simp
  with Shutdown_context_precedence [of ?ctx ?run, THEN conjunct1]
  have "Shutdown ?ctx ?run = Some (Some (''close server: '' @ ctxError ?ctx))"
    by blast
  then have 1: "Shutdown ?ctx ?run = Some (Some ''close server: context deadline exceeded'')"
    by simp
  have "doneAt ?ctx' = None \<and> closeReturnsAt ?run \<noteq> None \<and> closeResult ?run = None"
    by simp
  with Shutdown_context_precedence [of ?ctx' ?run, THEN conjunct2, THEN conjunct2]
  have 2: "Shutdown ?ctx' ?run = Some None"
    by (rule mp)
  from Shutdown_context_precedence [of ?ctx' ?run, THEN conjunct2, THEN conjunct1, THEN mp, OF 2]
  obtain c t where "closeReturnsAt ?run = Some c" "recheckAt ?ctx' ?run = Some t" "c \<le> t"
    by (elim exE conjE)
  moreover have "recheckAt ?ctx' ?run = Some 5"
    by (simp add: recheckAt_def selectCase_def)
  ultimately show ?thesis using 1 2 by simp
qed

subsection \<open>Non-PTY session runner\<close>

lemma cancelledBy_Close_enter:
  "Close_enter s = Inr (s', effects) \<Longrightarrow>
     cancelledBy effects = processes s \<and> processes s' = processes s \<and> closing s' \<noteq> None \<and>
     closing s = None"
  by (auto simp: Close_enter_def split: option.splits)

lemma Close_enter_Inl: "Close_enter s = Inl ch \<Longrightarrow> closing s \<noteq> None"
  by (auto simp: Close_enter_def split: option.splits)

lemma beforeExit_simps [simp]:
  "beforeExit [] = []"
  "beforeExit (ProcessExits r # es) = []"
  "beforeExit (ContextDone # es) = ContextDone # beforeExit es"
  "beforeExit (ClientSignal sig # es) = ClientSignal sig # beforeExit es"
  "beforeExit (ServerCloses # es) = ServerCloses # beforeExit es"
  by (simp_all add: beforeExit_def isProcessExits_def)

lemma waitProcess_processes:
  "waitProcess cmd p events s = Some (ds, r, s') \<Longrightarrow> processes s' = processes s"
proof (induction cmd p events s arbitrary: ds rule: waitProcess.induct)
  case (5 cmd p events s)
  show ?case
  proof (cases "Close_enter s")
    case (Inl ch)
    with 5 show ?thesis by auto
  next
    case (Inr b)
    obtain s1 effects where b: "b = (s1, effects)" by (cases b) auto
    from cancelledBy_Close_enter [of s s1 effects] Inr b
    have "processes s1 = processes s" by simp
    with 5 Inr b show ?thesis by auto
  qed
qed auto

lemma waitProcess_no_hook:
  "Cancel cmd = None \<Longrightarrow> waitProcess cmd p events s = Some (ds, r, s') \<Longrightarrow>
     CancelHook sig \<notin> set ds"
proof (induction cmd p events s arbitrary: ds rule: waitProcess.induct)
  case (5 cmd p events s)
  then show ?case
    by (cases "Close_enter s") (auto split: if_splits)
qed auto

lemma waitProcess_context_done:
  "Cancel cmd = None \<Longrightarrow>
     waitProcess cmd p (filter (\<lambda>e. e \<noteq> ContextDone) events) s = waitProcess cmd p events s"
proof (induction cmd p events s rule: waitProcess.induct)
  case (3 cmd p events s)
  then show ?case
    by (cases "waitProcess cmd p events s") auto
next
  case (5 cmd p events s)
  then show ?case
    by (cases "Close_enter s") auto
qed auto

lemma waitProcess_signals:
  "waitProcess cmd p events s = Some (ds, r, s') \<Longrightarrow>
     HandleSignal sig \<in> set ds \<longleftrightarrow> ClientSignal sig \<in> set (beforeExit events)"
proof (induction cmd p events s arbitrary: ds rule: waitProcess.induct)
  case (3 cmd p events s)
  then show ?case by (auto split: option.splits)
next
  case (5 cmd p events s)
  then show ?case
    by (cases "Close_enter s") (auto split: if_splits)
qed auto

lemma waitProcess_closing:
  "closing s \<noteq> None \<Longrightarrow> waitProcess cmd p events s = Some (ds, r, s') \<Longrightarrow> CmdCancel \<notin> set ds"
proof (induction cmd p events s arbitrary: ds rule: waitProcess.induct)
  case (3 cmd p events s)
  then show ?case by (auto split: option.splits)
next
  case (5 cmd p events s)
  show ?case
  proof (cases "Close_enter s")
    case (Inl ch)
    with 5 show ?thesis by auto
  next
    case (Inr b)
    obtain s1 effects where b: "b = (s1, effects)" by (cases b) auto
    from cancelledBy_Close_enter [of s s1 effects] Inr b 5(3) show ?thesis by simp
  qed
qed auto

lemma waitProcess_cancel:
  "p \<in> processes s \<Longrightarrow> closing s = None \<Longrightarrow> waitProcess cmd p events s = Some (ds, r, s') \<Longrightarrow>
     CmdCancel \<in> set ds \<longleftrightarrow> ServerCloses \<in> set (beforeExit events)"
proof (induction cmd p events s arbitrary: ds rule: waitProcess.induct)
  case (3 cmd p events s)
  then show ?case by (auto split: option.splits)
next
  case (5 cmd p events s)
  show ?case
  proof (cases "Close_enter s")
    case (Inl ch)
    with Close_enter_Inl [OF this] 5(4) show ?thesis by simp
  next
    case (Inr b)
    obtain s1 effects where b: "b = (s1, effects)" by (cases b) auto
    from cancelledBy_Close_enter [of s s1 effects] Inr b 5(3)
    have "p \<in> cancelledBy effects" by simp
    with 5(5) Inr b show ?thesis by auto
  qed
qed auto

lemma waitProcess_None:
  "waitProcess cmd p events s = None \<longleftrightarrow> (\<forall>r. ProcessExits r \<notin> set events)"
proof (induction cmd p events s rule: waitProcess.induct)
  case (5 cmd p events s)
  then show ?case
    by (cases "Close_enter s") auto
qed auto

lemma startNonPTYSession_closing:
  assumes "stdinPipe out = None" "cmdStart out = Inr p" "closing s \<noteq> None"
  shows "startNonPTYSession s cmd out =
     Some ([CmdCancel],
           Some (OtherError (''failed to track process: '' @
                   (case cmdCancelResult out of Some e \<Rightarrow> e | None \<Rightarrow> ''%!w(<nil>)''))),
           s)"
  using assms by (simp add: startNonPTYSession_def trackProcess_def)

lemma startNonPTYSession_tracked:
  assumes "stdinPipe out = None" "cmdStart out = Inr p" "closing s = None"
  shows "startNonPTYSession s cmd out =
     map_option (\<lambda>(ds, r, s2). (ds, r, snd (trackProcess s2 p False)))
       (waitProcess (cmd\<lparr>Cancel := None\<rparr>) p (waitEvents out)
          (s\<lparr>wg := wg s + 1, processes := insert p (processes s)\<rparr>))"
  using assms by (simp add: startNonPTYSession_def trackProcess_def)

text \<open>
  Claim C6, amended. For a process \<open>p\<close> that the non-PTY runner has started: the end
  of the session's context changes nothing (the run is the same without the
  \<open>ContextDone\<close> events, and the \<open>Cancel\<close> hook never reaches the process, whatever
  hook the command came with); the runner returns exactly when the process exits or the
  process could not be tracked; the process receives a forwarded signal exactly when the
  client sent it before the process exited, and \<open>cmdCancel\<close> exactly when the server
  was already closing as the runner tried to track it or \<open>Server.Close\<close> ran before
  the process exited, so the process is tracked all that time; it is removed from the
  tracker when the runner returns. \<open>Server.Close\<close> calls \<open>cmdCancel\<close> on every
  tracked process.
\<close>

theorem startNonPTYSession_deliveries:
  assumes "stdinPipe out = None" and "cmdStart out = Inr p"
  shows "startNonPTYSession s cmd out =
           startNonPTYSession s cmd
             (out\<lparr>waitEvents := filter (\<lambda>e. e \<noteq> ContextDone) (waitEvents out)\<rparr>) \<and>
         (startNonPTYSession s cmd out = None \<longleftrightarrow>
            closing s = None \<and> (\<forall>r. ProcessExits r \<notin> set (waitEvents out))) \<and>
         (\<forall>ds r s'. startNonPTYSession s cmd out = Some (ds, r, s') \<longrightarrow>
            (\<forall>sig. CancelHook sig \<notin> set ds) \<and>
            (\<forall>sig. HandleSignal sig \<in> set ds \<longleftrightarrow>
               closing s = None \<and> ClientSignal sig \<in> set (beforeExit (waitEvents out))) \<and>
            (CmdCancel \<in> set ds \<longleftrightarrow>
               closing s \<noteq> None \<or> ServerCloses \<in> set (beforeExit (waitEvents out))) \<and>
            (closing s = None \<longrightarrow> processes s' = processes s - {p})) \<and>
         (\<forall>s0 s1 effects. Close_enter s0 = Inr (s1, effects) \<longrightarrow>
            cancelledBy effects = processes s0)"
proof (cases "closing s")
  case (Some ch)
  then have c: "closing s \<noteq> None" by simp
  let ?out' = "out\<lparr>waitEvents := filter (\<lambda>e. e \<noteq> ContextDone) (waitEvents out)\<rparr>"
  have o': "stdinPipe ?out' = None" "cmdStart ?out' = Inr p" "cmdCancelResult ?out' = cmdCancelResult out"
    using assms by simp_all
  have 1: "startNonPTYSession s cmd out = startNonPTYSession s cmd ?out'"
    unfolding startNonPTYSession_closing [OF assms c] startNonPTYSession_closing [OF o'(1,2) c] o'(3) ..
  show ?thesis
    using 1 c cancelledBy_Close_enter
    unfolding startNonPTYSession_closing [OF assms c]
    by auto
next
  case None
  let ?out' = "out\<lparr>waitEvents := filter (\<lambda>e. e \<noteq> ContextDone) (waitEvents out)\<rparr>"
  let ?cmd = "cmd\<lparr>Cancel := None\<rparr>"
  let ?s1 = "s\<lparr>wg := wg s + 1, processes := insert p (processes s)\<rparr>"
  have o': "stdinPipe ?out' = None" "cmdStart ?out' = Inr p"
    using assms by simp_all
  have nc: "Cancel ?cmd = None" by simp
  have run: "startNonPTYSession s cmd out =
     map_option (\<lambda>(ds, r, s2). (ds, r, snd (trackProcess s2 p False)))
       (waitProcess ?cmd p (waitEvents out) ?s1)"
    by (rule startNonPTYSession_tracked [OF assms None])
  have 1: "startNonPTYSession s cmd out = startNonPTYSession s cmd ?out'"
    unfolding startNonPTYSession_tracked [OF assms None] startNonPTYSession_tracked [OF o' None]
    using waitProcess_context_done [OF nc, of p "waitEvents out" ?s1] by simp
  have 2: "startNonPTYSession s cmd out = None \<longleftrightarrow>
            closing s = None \<and> (\<forall>r. ProcessExits r \<notin> set (waitEvents out))"
    unfolding run using None waitProcess_None [of ?cmd p "waitEvents out" ?s1] by simp
  have 3: "(\<forall>sig. CancelHook sig \<notin> set ds) \<and>
            (\<forall>sig. HandleSignal sig \<in> set ds \<longleftrightarrow>
               closing s = None \<and> ClientSignal sig \<in> set (beforeExit (waitEvents out))) \<and>
            (CmdCancel \<in> set ds \<longleftrightarrow>
               closing s \<noteq> None \<or> ServerCloses \<in> set (beforeExit (waitEvents out))) \<and>
            (closing s = None \<longrightarrow> processes s' = processes s - {p})"
    if r: "startNonPTYSession s cmd out = Some (ds, r, s')" for ds r s'
  proof -
    from r obtain s2 where
      w: "waitProcess ?cmd p (waitEvents out) ?s1 = Some (ds, r, s2)"
      and s': "s' = snd (trackProcess s2 p False)"
      unfolding run by (auto split: prod.splits)
    have a: "\<forall>sig. CancelHook sig \<notin> set ds"
      using waitProcess_no_hook [OF nc w] by simp
    have b: "\<forall>sig. HandleSignal sig \<in> set ds \<longleftrightarrow>
               closing s = None \<and> ClientSignal sig \<in> set (beforeExit (waitEvents out))"
      using waitProcess_signals [OF w] None by simp
    have c: "CmdCancel \<in> set ds \<longleftrightarrow>
               closing s \<noteq> None \<or> ServerCloses \<in> set (beforeExit (waitEvents out))"
      using waitProcess_cancel [OF _ _ w] None by simp
    have "processes s2 = insert p (processes s)"
      using waitProcess_processes [OF w] by simp
    then have d: "closing s = None \<longrightarrow> processes s' = processes s - {p}"
      unfolding s' by (auto simp: trackProcess_def)
    from a b c d show ?thesis by (intro conjI)
  qed
  have 4: "\<forall>s0 s1 effects. Close_enter s0 = Inr (s1, effects) \<longrightarrow>
            cancelledBy effects = processes s0"
    using cancelledBy_Close_enter by blast
  show ?thesis
    by (intro conjI allI impI 1 2 4) (use 3 in blast)+
qed

theorem startNonPTYSession_deliveries_witness:
  "startNonPTYSession exampleServer (AsExec shellCmd) detachedOutcomes =
     Some ([CmdCancel], Some (ExitError (- 1)), closingServer) \<and>
   startNonPTYSession exampleServer (AsExec shellCmd) detachedOutcomes =
     startNonPTYSession exampleServer (AsExec shellCmd)
       (detachedOutcomes\<lparr>waitEvents := [ServerCloses, ProcessExits (Some (ExitError (- 1)))]\<rparr>)"
proof -
  have 1: "stdinPipe detachedOutcomes = None" and 2: "cmdStart detachedOutcomes = Inr 42"
    by (simp_all add: detachedOutcomes_def)
  have f: "filter (\<lambda>e. e \<noteq> ContextDone) (waitEvents detachedOutcomes) =
      [ServerCloses, ProcessExits (Some (ExitError (- 1)))]"
    by (simp add: detachedOutcomes_def)
  have r: "startNonPTYSession exampleServer (AsExec shellCmd)
       (detachedOutcomes\<lparr>waitEvents := [ServerCloses, ProcessExits (Some (ExitError (- 1)))]\<rparr>) =
     Some ([CmdCancel], Some (ExitError (- 1)), closingServer)"
    by (simp add: startNonPTYSession_def detachedOutcomes_def trackProcess_def Close_enter_def
        exampleServer_def closingServer_def)
  note T = startNonPTYSession_deliveries [OF 1 2, of exampleServer "AsExec shellCmd", THEN conjunct1,
      unfolded f]
  show ?thesis
    using T r by simp
qed

text \<open>
  A signal from the client reaches the process while \<open>Server.Close\<close> does not run.
\<close>

theorem startNonPTYSession_client_signal_counterexample:
  "startNonPTYSession exampleServer (AsExec shellCmd) exampleNonPtyOutcomes =
     Some ([HandleSignal ''KILL''], Some (ExitError (- 1)), exampleServer) \<and>
   ServerCloses \<notin> set (waitEvents exampleNonPtyOutcomes)"
  by (simp add: startNonPTYSession_def exampleNonPtyOutcomes_def trackProcess_def
      exampleServer_def)

text \<open>
  With the hook that \<open>AsExec\<close> leaves in place, the end of the context would reach the
  process: the assignment \<open>cmd.Cancel = nil\<close> is what keeps the process alive.
\<close>

lemma startNonPTYSession_with_hook_would_cancel:
  "waitProcess (AsExec shellCmd) 42 (waitEvents detachedOutcomes)
     (exampleServer\<lparr>wg := 1, processes := {42}\<rparr>) =
   Some ([CancelHook ''kill'', CmdCancel], Some (ExitError (- 1)),
         closingServer\<lparr>wg := 1, processes := {42}\<rparr>)"
  by (simp add: detachedOutcomes_def AsExec_def Close_enter_def exampleServer_def
      closingServer_def)

end
